theory Spec2Isabelle
  imports Complex_Main "HOL-Library.Log_Nat"
begin

section \<open>Numbers\<close>

text \<open>
  A JavaScript \<^verbatim>\<open>number\<close> is an IEEE 754 double: a finite value, which is a rational
  number, one of the two infinities, or NaN. The two zeros are not told apart (no
  modelled operation does: \<^verbatim>\<open>-0 || 0\<close>, \<^verbatim>\<open>-0 > 0.01\<close> and \<^verbatim>\<open>Math.abs(-0)\<close>
  behave as for \<^verbatim>\<open>0\<close>). The type is wider than the doubles, since \<open>Finite\<close>
  takes any rational; the literals and the results of the operations below are doubles,
  and what is proved for every \<open>number\<close> holds for every double.
\<close>

datatype number = Finite rat | PosInfinity | NegInfinity | NaN

text \<open>
  Rounding to the nearest double, ties to the even significand. For a positive \<open>x\<close>,
  \<open>ilog2 x\<close> is the exponent \<open>e\<close> with \<open>2 ^ e \<le> x < 2 ^ (e + 1)\<close>. The
  doubles of that binade are the multiples of \<open>2 ^ (e - 52)\<close> (53 significant bits);
  below \<open>2 ^ (- 1022)\<close> the spacing stays \<open>2 ^ (- 1074)\<close>, that of the subnormal
  numbers. A result of magnitude \<open>2 ^ 1024\<close> or more is an infinity.
\<close>

definition ilog2 :: "rat \<Rightarrow> int" where
  "ilog2 x = (if x \<ge> 1 then bitlen \<lfloor>x\<rfloor> - 1 else - bitlen (\<lceil>1 / x\<rceil> - 1))"

definition round_half_even :: "rat \<Rightarrow> int" where
  "round_half_even q =
     (let f = \<lfloor>q\<rfloor>; r = q - of_int f
      in if r < 1 / 2 then f
         else if r > 1 / 2 then f + 1
         else if even f then f else f + 1)"

definition fl :: "rat \<Rightarrow> rat" where
  "fl x = (if x = 0 then 0
           else let e = max (ilog2 \<bar>x\<bar>) (- 1022); u = 2 powi (e - 52)
                in of_int (round_half_even (x / u)) * u)"

definition rounded :: "rat \<Rightarrow> number" where
  "rounded x =
     (let r = fl x in
      if r \<noteq> 0 \<and> ilog2 \<bar>r\<bar> \<ge> 1024
        then (if r > 0 then PosInfinity else NegInfinity)
      else Finite r)"

text \<open>A decimal literal of the source denotes the double nearest to it.\<close>

definition lit :: "rat \<Rightarrow> number" where
  "lit x = rounded x"

text \<open>
  The operators \<^verbatim>\<open>+\<close>, \<^verbatim>\<open>-\<close> (unary and binary), \<^verbatim>\<open>Math.abs\<close>, \<^verbatim>\<open><\<close> and
  \<^verbatim>\<open><=\<close> on numbers; \<^verbatim>\<open>a > b\<close> is \<open>b < a\<close> and \<^verbatim>\<open>a >= b\<close> is \<open>b \<le> a\<close>.
  Every comparison with NaN is false.
\<close>

instantiation number :: "{zero, plus, uminus, minus, abs, ord}"
begin

definition zero_number :: number where
  "zero_number = Finite 0"

fun plus_number :: "number \<Rightarrow> number \<Rightarrow> number" where
  "plus_number NaN b = NaN"
| "plus_number a NaN = NaN"
| "plus_number PosInfinity NegInfinity = NaN"
| "plus_number NegInfinity PosInfinity = NaN"
| "plus_number PosInfinity b = PosInfinity"
| "plus_number NegInfinity b = NegInfinity"
| "plus_number (Finite a) PosInfinity = PosInfinity"
| "plus_number (Finite a) NegInfinity = NegInfinity"
| "plus_number (Finite a) (Finite b) = rounded (a + b)"

fun uminus_number :: "number \<Rightarrow> number" where
  "uminus_number (Finite a) = Finite (- a)"
| "uminus_number PosInfinity = NegInfinity"
| "uminus_number NegInfinity = PosInfinity"
| "uminus_number NaN = NaN"

definition minus_number :: "number \<Rightarrow> number \<Rightarrow> number" where
  "minus_number a b = a + (- b)"

fun abs_number :: "number \<Rightarrow> number" where
  "abs_number (Finite a) = Finite \<bar>a\<bar>"
| "abs_number PosInfinity = PosInfinity"
| "abs_number NegInfinity = PosInfinity"
| "abs_number NaN = NaN"

fun less_number :: "number \<Rightarrow> number \<Rightarrow> bool" where
  "less_number (Finite a) (Finite b) = (a < b)"
| "less_number (Finite a) PosInfinity = True"
| "less_number NegInfinity (Finite b) = True"
| "less_number NegInfinity PosInfinity = True"
| "less_number a b = False"

fun less_eq_number :: "number \<Rightarrow> number \<Rightarrow> bool" where
  "less_eq_number NaN b = False"
| "less_eq_number a NaN = False"
| "less_eq_number (Finite a) (Finite b) = (a \<le> b)"
| "less_eq_number NegInfinity b = True"
| "less_eq_number a PosInfinity = True"
| "less_eq_number a b = False"

instance ..

end

text \<open>JavaScript truthiness of a number: neither zero nor NaN.\<close>

definition falsy :: "number \<Rightarrow> bool" where
  "falsy x = (x = 0 \<or> x = NaN)"

section \<open>Constants (src/constants.ts)\<close>

text \<open>
  An optional field (\<^verbatim>\<open>subtotal?: number\<close>) is an \<open>option\<close>, \<open>None\<close>
  being \<^verbatim>\<open>undefined\<close>.
\<close>

datatype InvoiceStatus = PROCESSING | NEEDS_REVIEW | AWAITING_APPROVAL | APPROVED | REJECTED

text \<open>The string value of each member of the string enum \<^verbatim>\<open>InvoiceStatus\<close>.\<close>

fun status_value :: "InvoiceStatus \<Rightarrow> string" where
  "status_value PROCESSING = ''processing''"
| "status_value NEEDS_REVIEW = ''needs_review''"
| "status_value AWAITING_APPROVAL = ''awaiting_approval''"
| "status_value APPROVED = ''approved''"
| "status_value REJECTED = ''rejected''"

datatype UserRole = FINANCE_CLERK | FINANCE_MANAGER | ADMIN

definition CONFIDENCE_THRESHOLD_AUTO_APPROVAL :: number where
  "CONFIDENCE_THRESHOLD_AUTO_APPROVAL = lit (95 / 100)"

definition LOW_CONFIDENCE_THRESHOLD :: number where
  "LOW_CONFIDENCE_THRESHOLD = lit (75 / 100)"

definition MAX_FILE_SIZE_BYTES :: nat where
  "MAX_FILE_SIZE_BYTES = 10485760"

definition MATH_TOLERANCE :: number where
  "MATH_TOLERANCE = lit (1 / 100)"

definition INVALID_FILE_FORMAT :: string where
  "INVALID_FILE_FORMAT = ''INVALID_FILE_FORMAT''"

definition FILE_TOO_LARGE :: string where
  "FILE_TOO_LARGE = ''FILE_TOO_LARGE''"

section \<open>Data (src/operations.ts, interfaces)\<close>

datatype js_value = Str string | Num number

record FieldConfidence =
  fc_value :: js_value
  fc_confidence :: number

record ExtractionConfidence =
  conf_vendorName :: "FieldConfidence option"
  conf_invoiceNumber :: "FieldConfidence option"
  conf_invoiceDate :: "FieldConfidence option"
  conf_totalAmount :: "FieldConfidence option"
  conf_lineItems :: "FieldConfidence list option"
  overallConfidence :: number

text \<open>
  A line item as the extraction step produces it and as
  \<^verbatim>\<open>createLineItemsTransaction\<close> reads it (\<^verbatim>\<open>Omit<LineItem, 'id'>\<close>).
\<close>

record ExtractedLineItem =
  description :: string
  quantity :: number
  unitPrice :: number
  lineTotal :: number
  productCode :: "string option"
  lineNumber :: int

text \<open>
  The \<^verbatim>\<open>extractedData\<close> object. It is typed \<^verbatim>\<open>any\<close> in the source; the
  fields are those the workflow and the validator read, the ones read through
  \<^verbatim>\<open>?.\<close> or \<^verbatim>\<open>||\<close> being optional.
\<close>

record ExtractedData =
  vendorName :: "string option"
  invoiceNumber :: string
  invoiceDate :: "string option"
  dueDate :: "string option"
  subtotal :: "number option"
  taxAmount :: "number option"
  totalAmount :: "number option"
  currency :: "string option"
  lineItems :: "ExtractedLineItem list option"

section \<open>The business-rule validator (validateBusinessRulesStep)\<close>

text \<open>\<^verbatim>\<open>x || 0\<close> on an optional number: 0 when \<open>x\<close> is undefined, zero or NaN.\<close>

fun or_zero :: "number option \<Rightarrow> number" where
  "or_zero None = 0"
| "or_zero (Some x) = (if falsy x then 0 else x)"

text \<open>
  \<^verbatim>\<open>extractedData.lineItems?.reduce((sum, item) => sum + item.lineTotal, 0) || 0\<close>
\<close>

definition lineItemsTotal :: "ExtractedData \<Rightarrow> number" where
  "lineItemsTotal extractedData =
     or_zero (map_option (foldl (\<lambda>sum item. sum + lineTotal item) 0) (lineItems extractedData))"

definition subtotalDiff :: "ExtractedData \<Rightarrow> number" where
  "subtotalDiff extractedData =
     \<bar>lineItemsTotal extractedData - or_zero (subtotal extractedData)\<bar>"

definition totalDiff :: "ExtractedData \<Rightarrow> number" where
  "totalDiff extractedData =
     \<bar>or_zero (subtotal extractedData) + or_zero (taxAmount extractedData)
        - or_zero (totalAmount extractedData)\<bar>"

definition validateBusinessRulesStep :: "ExtractedData \<Rightarrow> ExtractionConfidence \<Rightarrow> InvoiceStatus" where
  "validateBusinessRulesStep extractedData confidence =
     (if overallConfidence confidence < LOW_CONFIDENCE_THRESHOLD then NEEDS_REVIEW
      else if subtotalDiff extractedData > MATH_TOLERANCE \<or> totalDiff extractedData > MATH_TOLERANCE
        then NEEDS_REVIEW
      else if overallConfidence confidence \<ge> CONFIDENCE_THRESHOLD_AUTO_APPROVAL
        then AWAITING_APPROVAL
      else NEEDS_REVIEW)"

section \<open>The sum of the line totals as the specification words it\<close>

text \<open>
  \<^verbatim>\<open>sum(item.lineTotal for item in lineItems)\<close>: the numbers added up in list order,
  starting from 0, every addition being one of doubles. It is stated on the list of the
  line totals alone, apart from the validator, which the theorems below compare it with.
\<close>

definition sum_in_order :: "number list \<Rightarrow> number" where
  "sum_in_order xs = fold (\<lambda>x total. total + x) xs 0"

section \<open>Environment of a run\<close>

text \<open>
  A JavaScript exception: \<^verbatim>\<open>new Error(message)\<close>. The handlers only ever read the
  message.
\<close>

datatype exn = Error string

text \<open>The steps and transactions of \<^verbatim>\<open>InvoiceOperations\<close> that the model runs.\<close>

datatype operation =
    Op_validateFileStep
  | Op_saveFileStep
  | Op_extractInvoiceDataStep
  | Op_validateBusinessRulesStep
  | Op_createInvoiceTransaction
  | Op_createLineItemsTransaction
  | Op_getInvoiceByIdTransaction
  | Op_updateInvoiceStatusTransaction
  | Op_deleteInvoiceTransaction

text \<open>
  Everything a run reads from outside the repository's code: whether the file system or
  the database raises in an operation (\<open>fault\<close>, with the message of the error; a
  fault belongs to the operation and so hits each of its calls in a run), the
  environment variable, Node's \<^verbatim>\<open>path\<close> functions, the clock at each place the source
  reads it, the rendering of a timestamp as an ISO date
  (\<^verbatim>\<open>new Date(ms).toISOString().split('T')[0]\<close>), the values PostgreSQL generates
  (\<^verbatim>\<open>gen_random_uuid()\<close>, \<^verbatim>\<open>now()\<close>), and whether the multer middleware lets a
  file of exactly \<^verbatim>\<open>limits.fileSize\<close> bytes through (the library is not part of the
  repository, and the source does not say what it does at that boundary).
\<close>

record runtime =
  fault :: "operation \<Rightarrow> string option"
  UPLOAD_DIR :: "string option"
  path_extname :: "string \<Rightarrow> string"
  path_basename :: "string \<Rightarrow> string \<Rightarrow> string"
  path_join :: "string \<Rightarrow> string \<Rightarrow> string"
  now_saveFile :: nat
  now_invoiceNumber :: nat
  now_invoiceDate :: nat
  now_dueDate :: nat
  toISODate :: "nat \<Rightarrow> string"
  gen_invoice_id :: string
  gen_line_item_id :: "nat \<Rightarrow> string"
  db_now :: nat
  multer_passes_file_at_limit :: bool

text \<open>A number in a template literal: its decimal digits.\<close>

definition digit :: "nat \<Rightarrow> char" where
  "digit d = (if d = 0 then CHR ''0'' else if d = 1 then CHR ''1'' else if d = 2 then CHR ''2''
     else if d = 3 then CHR ''3'' else if d = 4 then CHR ''4'' else if d = 5 then CHR ''5''
     else if d = 6 then CHR ''6'' else if d = 7 then CHR ''7'' else if d = 8 then CHR ''8''
     else CHR ''9'')"

function decimal :: "nat \<Rightarrow> string" where
  "decimal n = (if n < 10 then [digit n] else decimal (n div 10) @ [digit (n mod 10)])"
  by pat_completeness auto
termination
  by (relation "measure (\<lambda>n. n)") auto

declare decimal.simps [simp del]

text \<open>JavaScript truthiness of an optional string: neither undefined nor empty.\<close>

fun truthy :: "string option \<Rightarrow> bool" where
  "truthy None = False"
| "truthy (Some s) = (s \<noteq> [])"

text \<open>\<^verbatim>\<open>value || fallback\<close> on an optional string.\<close>

fun or_default :: "string option \<Rightarrow> string \<Rightarrow> string" where
  "or_default None fallback = fallback"
| "or_default (Some s) fallback = (if s = [] then fallback else s)"

text \<open>\<^verbatim>\<open>haystack.includes(needle)\<close>\<close>

fun str_includes :: "string \<Rightarrow> string \<Rightarrow> bool" where
  "str_includes [] needle = (needle = [])"
| "str_includes (c # cs) needle =
     (take (length needle) (c # cs) = needle \<or> str_includes cs needle)"

section \<open>The database (migrations/20240128000001_create_initial_tables.ts)\<close>

text \<open>
  A table is the list of its rows, in insertion order. Identifiers are the texts of the
  UUIDs. The columns are those of the migration; of the users and vendors tables only the
  columns that the modelled operations read are kept, and the timestamps of line items
  are left out. Dates are ISO date strings, timestamps are milliseconds. A decimal
  column holds the number written to it. Of the constraints, the primary keys, the
  foreign keys of the invoices and line items and the check on
  \<^verbatim>\<open>invoices.status\<close> are modelled. The limits of the column types are not: a
  string longer than its \<^verbatim>\<open>varchar\<close> column (255 characters for
  \<^verbatim>\<open>file_path\<close>, 3 for \<^verbatim>\<open>currency\<close>) or a number out of the range of
  \<^verbatim>\<open>decimal(12,2)\<close> makes the statement raise, and such a raise is one of the
  failures of an operation that the \<open>fault\<close> of the runtime stands for; nor is the
  rounding of a stored number to two decimal places.
\<close>

record users_row =
  usr_id :: string
  usr_email :: string
  usr_name :: string
  usr_role :: UserRole

record vendors_row =
  ven_id :: string
  ven_name :: string

record invoices_row =
  inv_id :: string
  inv_vendor_id :: "string option"
  inv_invoice_number :: string
  inv_invoice_date :: "string option"
  inv_due_date :: "string option"
  inv_subtotal :: "number option"
  inv_tax_amount :: "number option"
  inv_total_amount :: "number option"
  inv_currency :: "string option"
  inv_status :: string
  inv_assigned_to :: "string option"
  inv_approved_by :: "string option"
  inv_file_path :: "string option"
  inv_extraction_confidence :: "ExtractionConfidence option"
  inv_created_at :: nat
  inv_updated_at :: nat

record line_items_row =
  li_id :: string
  li_invoice_id :: string
  li_description :: string
  li_quantity :: number
  li_unit_price :: number
  li_line_total :: number
  li_product_code :: "string option"
  li_line_number :: int

record database =
  users :: "users_row list"
  vendors :: "vendors_row list"
  invoices :: "invoices_row list"
  line_items :: "line_items_row list"

text \<open>
  The check constraint that \<^verbatim>\<open>table.enum('status', [...])\<close> puts on
  \<^verbatim>\<open>invoices.status\<close>: the five values listed in the migration.
\<close>

definition invoices_status_enum :: "string list" where
  "invoices_status_enum =
     [''processing'', ''needs_review'', ''awaiting_approval'', ''approved'', ''rejected'']"

definition status_check_ok :: "invoices_row \<Rightarrow> bool" where
  "status_check_ok r = (inv_status r \<in> set invoices_status_enum)"

text \<open>A nullable foreign key: NULL, or the key of a row of the referenced table.\<close>

fun references :: "string option \<Rightarrow> string list \<Rightarrow> bool" where
  "references None keys = True"
| "references (Some k) keys = (k \<in> set keys)"

definition foreign_keys_ok :: "database \<Rightarrow> invoices_row \<Rightarrow> bool" where
  "foreign_keys_ok d r =
     (references (inv_vendor_id r) (map ven_id (vendors d))
      \<and> references (inv_assigned_to r) (map usr_id (users d))
      \<and> references (inv_approved_by r) (map usr_id (users d)))"

definition check_violation :: exn where
  "check_violation =
     Error ''new row for relation invoices violates check constraint invoices_status_check''"

definition foreign_key_violation :: exn where
  "foreign_key_violation =
     Error ''insert or update on table violates foreign key constraint''"

definition unique_violation :: exn where
  "unique_violation = Error ''duplicate key value violates unique constraint''"

text \<open>
  \<^verbatim>\<open>knex('invoices').insert(row)\<close>: the primary key must be new and the row must
  satisfy the modelled constraints of the table; otherwise the statement raises and
  nothing is inserted. (A raise for a value that does not fit its column type is a
  \<open>fault\<close> of the transaction that runs the statement.)
\<close>

definition insert_invoices :: "database \<Rightarrow> invoices_row \<Rightarrow> exn + database" where
  "insert_invoices d r =
     (if inv_id r \<in> set (map inv_id (invoices d)) then Inl unique_violation
      else if \<not> status_check_ok r then Inl check_violation
      else if \<not> foreign_keys_ok d r then Inl foreign_key_violation
      else Inr (d\<lparr>invoices := invoices d @ [r]\<rparr>))"

text \<open>
  \<^verbatim>\<open>knex('invoices').where('id', invoiceId).update(...)\<close>: every row with that id
  is replaced by its update; when an updated row violates a constraint the statement
  raises and no row changes. With no matching row the statement succeeds and changes
  nothing.
\<close>

definition update_invoices ::
  "database \<Rightarrow> string \<Rightarrow> (invoices_row \<Rightarrow> invoices_row) \<Rightarrow> exn + database" where
  "update_invoices d invoiceId f =
     (let updated = map f (filter (\<lambda>r. inv_id r = invoiceId) (invoices d)) in
      if \<not> list_all status_check_ok updated then Inl check_violation
      else if \<not> list_all (foreign_keys_ok d) updated then Inl foreign_key_violation
      else Inr (d\<lparr>invoices := map (\<lambda>r. if inv_id r = invoiceId then f r else r) (invoices d)\<rparr>))"

text \<open>
  \<^verbatim>\<open>knex('line_items').insert(rows)\<close>, one statement: the primary keys must be new
  and distinct, and every row must reference an invoice.
\<close>

definition insert_line_items :: "database \<Rightarrow> line_items_row list \<Rightarrow> exn + database" where
  "insert_line_items d rows =
     (if list_ex (\<lambda>r. li_id r \<in> set (map li_id (line_items d))) rows
         \<or> \<not> distinct (map li_id rows)
        then Inl unique_violation
      else if \<not> list_all (\<lambda>r. li_invoice_id r \<in> set (map inv_id (invoices d))) rows
        then Inl foreign_key_violation
      else Inr (d\<lparr>line_items := line_items d @ rows\<rparr>))"

section \<open>Steps and transactions (class InvoiceOperations)\<close>

text \<open>The uploaded file as multer hands it over: \<^verbatim>\<open>req.file\<close>.\<close>

record fileData =
  buffer :: "nat list"
  originalname :: string
  mimetype :: string
  file_size :: nat

text \<open>
  The state a run works on: the database, the upload directory (path and content of
  each file written, the latest first), and the log of the operations started so far,
  as the workflow engine records them.
\<close>

record system =
  db :: database
  files :: "(string \<times> nat list) list"
  executed :: "operation list"

definition started :: "operation \<Rightarrow> system \<Rightarrow> system" where
  "started op s = s\<lparr>executed := executed s @ [op]\<rparr>"

text \<open>
  \<^verbatim>\<open>@DBOS.transaction()\<close>: the body runs in one database transaction, which is
  committed when the body returns and rolled back when it throws or the database fails.
\<close>

definition DBOS_transaction ::
  "operation \<Rightarrow> runtime \<Rightarrow> system \<Rightarrow> (database \<Rightarrow> exn + database \<times> 'a) \<Rightarrow> system \<times> (exn + 'a)" where
  "DBOS_transaction op rt s body =
     (case fault rt op of
        Some message \<Rightarrow> (started op s, Inl (Error message))
      | None \<Rightarrow>
          (case body (db s) of
             Inl e \<Rightarrow> (started op s, Inl e)
           | Inr (d, v) \<Rightarrow> (started op (s\<lparr>db := d\<rparr>), Inr v)))"

record invoiceData =
  d_vendorId :: "string option"
  d_invoiceNumber :: string
  d_invoiceDate :: "string option"
  d_dueDate :: "string option"
  d_subtotal :: "number option"
  d_taxAmount :: "number option"
  d_totalAmount :: "number option"
  d_currency :: string
  d_status :: InvoiceStatus
  d_filePath :: string
  d_extractionConfidence :: "ExtractionConfidence option"

definition new_invoices_row :: "runtime \<Rightarrow> invoiceData \<Rightarrow> invoices_row" where
  "new_invoices_row rt invoiceData =
     \<lparr>inv_id = gen_invoice_id rt,
      inv_vendor_id = d_vendorId invoiceData,
      inv_invoice_number = d_invoiceNumber invoiceData,
      inv_invoice_date = d_invoiceDate invoiceData,
      inv_due_date = d_dueDate invoiceData,
      inv_subtotal = d_subtotal invoiceData,
      inv_tax_amount = d_taxAmount invoiceData,
      inv_total_amount = d_totalAmount invoiceData,
      inv_currency = Some (d_currency invoiceData),
      inv_status = status_value (d_status invoiceData),
      inv_assigned_to = None,
      inv_approved_by = None,
      inv_file_path = Some (d_filePath invoiceData),
      inv_extraction_confidence = d_extractionConfidence invoiceData,
      inv_created_at = db_now rt,
      inv_updated_at = db_now rt\<rparr>"

definition createInvoiceTransaction ::
  "runtime \<Rightarrow> system \<Rightarrow> invoiceData \<Rightarrow> system \<times> (exn + string)" where
  "createInvoiceTransaction rt s invoiceData =
     DBOS_transaction Op_createInvoiceTransaction rt s
       (\<lambda>d. case insert_invoices d (new_invoices_row rt invoiceData) of
               Inl e \<Rightarrow> Inl e
             | Inr d' \<Rightarrow> Inr (d', gen_invoice_id rt))"

definition new_line_items_rows ::
  "runtime \<Rightarrow> string \<Rightarrow> ExtractedLineItem list \<Rightarrow> line_items_row list" where
  "new_line_items_rows rt invoiceId items =
     map (\<lambda>(k, item).
            \<lparr>li_id = gen_line_item_id rt k,
             li_invoice_id = invoiceId,
             li_description = description item,
             li_quantity = quantity item,
             li_unit_price = unitPrice item,
             li_line_total = lineTotal item,
             li_product_code = productCode item,
             li_line_number = lineNumber item\<rparr>)
         (enumerate 0 items)"

definition createLineItemsTransaction ::
  "runtime \<Rightarrow> system \<Rightarrow> string \<Rightarrow> ExtractedLineItem list \<Rightarrow> system \<times> (exn + unit)" where
  "createLineItemsTransaction rt s invoiceId items =
     DBOS_transaction Op_createLineItemsTransaction rt s
       (\<lambda>d. if length items > 0
             then (case insert_line_items d (new_line_items_rows rt invoiceId items) of
                     Inl e \<Rightarrow> Inl e
                   | Inr d' \<Rightarrow> Inr (d', ()))
             else Inr (d, ()))"

text \<open>The API shape of an invoice (\<^verbatim>\<open>InvoiceResponse\<close>) and of its line items.\<close>

record LineItem =
  item_id :: string
  item_description :: string
  item_quantity :: number
  item_unitPrice :: number
  item_lineTotal :: number
  item_productCode :: "string option"
  item_lineNumber :: int

record InvoiceResponse =
  r_id :: string
  r_vendorId :: "string option"
  r_vendorName :: "string option"
  r_invoiceNumber :: string
  r_invoiceDate :: "string option"
  r_dueDate :: "string option"
  r_subtotal :: "number option"
  r_taxAmount :: "number option"
  r_totalAmount :: "number option"
  r_currency :: "string option"
  r_status :: string
  r_assignedTo :: "string option"
  r_approvedBy :: "string option"
  r_filePath :: "string option"
  r_extractionConfidence :: "ExtractionConfidence option"
  r_lineItems :: "LineItem list"
  r_createdAt :: nat
  r_updatedAt :: nat

text \<open>
  \<^verbatim>\<open>parseFloat(column) || undefined\<close>: NULL (\<^verbatim>\<open>parseFloat(null)\<close> is NaN), zero
  and NaN all become undefined.
\<close>

fun parseFloat_or_undefined :: "number option \<Rightarrow> number option" where
  "parseFloat_or_undefined None = None"
| "parseFloat_or_undefined (Some x) = (if falsy x then None else Some x)"

text \<open>The columns the left joins add: \<^verbatim>\<open>vendors.name\<close> and the id of a joined user.\<close>

definition joined_vendor_name :: "database \<Rightarrow> string option \<Rightarrow> string option" where
  "joined_vendor_name d key =
     (case key of None \<Rightarrow> None
      | Some k \<Rightarrow> map_option ven_name (find (\<lambda>v. ven_id v = k) (vendors d)))"

definition joined_user_id :: "database \<Rightarrow> string option \<Rightarrow> string option" where
  "joined_user_id d key =
     (case key of None \<Rightarrow> None
      | Some k \<Rightarrow> map_option usr_id (find (\<lambda>u. usr_id u = k) (users d)))"

definition mapDatabaseToInvoiceResponse ::
  "database \<Rightarrow> invoices_row \<Rightarrow> line_items_row list \<Rightarrow> InvoiceResponse" where
  "mapDatabaseToInvoiceResponse d invoice items =
     \<lparr>r_id = inv_id invoice,
      r_vendorId = inv_vendor_id invoice,
      r_vendorName = joined_vendor_name d (inv_vendor_id invoice),
      r_invoiceNumber = inv_invoice_number invoice,
      r_invoiceDate = inv_invoice_date invoice,
      r_dueDate = inv_due_date invoice,
      r_subtotal = parseFloat_or_undefined (inv_subtotal invoice),
      r_taxAmount = parseFloat_or_undefined (inv_tax_amount invoice),
      r_totalAmount = parseFloat_or_undefined (inv_total_amount invoice),
      r_currency = inv_currency invoice,
      r_status = inv_status invoice,
      r_assignedTo = joined_user_id d (inv_assigned_to invoice),
      r_approvedBy = joined_user_id d (inv_approved_by invoice),
      r_filePath = inv_file_path invoice,
      r_extractionConfidence = inv_extraction_confidence invoice,
      r_lineItems =
        map (\<lambda>item.
               \<lparr>item_id = li_id item,
                item_description = li_description item,
                item_quantity = li_quantity item,
                item_unitPrice = li_unit_price item,
                item_lineTotal = li_line_total item,
                item_productCode = li_product_code item,
                item_lineNumber = li_line_number item\<rparr>) items,
      r_createdAt = inv_created_at invoice,
      r_updatedAt = inv_updated_at invoice\<rparr>"

definition select_invoice :: "database \<Rightarrow> string \<Rightarrow> InvoiceResponse option" where
  "select_invoice d invoiceId =
     (case find (\<lambda>r. inv_id r = invoiceId) (invoices d) of
        None \<Rightarrow> None
      | Some invoice \<Rightarrow>
          Some (mapDatabaseToInvoiceResponse d invoice
                  (sort_key li_line_number
                     (filter (\<lambda>i. li_invoice_id i = invoiceId) (line_items d)))))"

definition getInvoiceByIdTransaction ::
  "runtime \<Rightarrow> system \<Rightarrow> string \<Rightarrow> system \<times> (exn + InvoiceResponse option)" where
  "getInvoiceByIdTransaction rt s invoiceId =
     DBOS_transaction Op_getInvoiceByIdTransaction rt s (\<lambda>d. Inr (d, select_invoice d invoiceId))"

definition updateInvoiceStatusTransaction ::
  "runtime \<Rightarrow> system \<Rightarrow> string \<Rightarrow> InvoiceStatus \<Rightarrow> string option \<Rightarrow> string option
     \<Rightarrow> system \<times> (exn + unit)" where
  "updateInvoiceStatusTransaction rt s invoiceId status assignedTo approvedBy =
     DBOS_transaction Op_updateInvoiceStatusTransaction rt s
       (\<lambda>d. case update_invoices d invoiceId
                    (\<lambda>r. r\<lparr>inv_status := status_value status,
                            inv_assigned_to :=
                              (case assignedTo of None \<Rightarrow> inv_assigned_to r | Some u \<Rightarrow> Some u),
                            inv_approved_by :=
                              (case approvedBy of None \<Rightarrow> inv_approved_by r | Some u \<Rightarrow> Some u)\<rparr>) of
               Inl e \<Rightarrow> Inl e
             | Inr d' \<Rightarrow> Inr (d', ()))"

text \<open>
  \<^verbatim>\<open>// Soft delete by updating status\<close>:
  \<^verbatim>\<open>.where('id', invoiceId).update({ status: 'deleted' })\<close>
\<close>

definition deleteInvoiceTransaction :: "runtime \<Rightarrow> system \<Rightarrow> string \<Rightarrow> system \<times> (exn + unit)" where
  "deleteInvoiceTransaction rt s invoiceId =
     DBOS_transaction Op_deleteInvoiceTransaction rt s
       (\<lambda>d. case update_invoices d invoiceId (\<lambda>r. r\<lparr>inv_status := ''deleted''\<rparr>) of
               Inl e \<Rightarrow> Inl e
             | Inr d' \<Rightarrow> Inr (d', ()))"

definition allowedTypes :: "string list" where
  "allowedTypes = [''application/pdf'', ''image/png'', ''image/jpeg'', ''image/jpg'']"

definition validateFileStep :: "fileData \<Rightarrow> exn + unit" where
  "validateFileStep file =
     (if mimetype file \<notin> set allowedTypes
        then Inl (Error (INVALID_FILE_FORMAT @ '': Unsupported file type '' @ mimetype file))
      else if file_size file > MAX_FILE_SIZE_BYTES
        then Inl (Error (FILE_TOO_LARGE @ '': File size '' @ decimal (file_size file)
                           @ '' exceeds limit''))
      else Inr ())"

text \<open>
  \<^verbatim>\<open>saveFileStep\<close>: the directory is \<^verbatim>\<open>process.env.UPLOAD_DIR || 'uploads/invoices'\<close>;
  a failure of \<^verbatim>\<open>fs.mkdir\<close> or \<^verbatim>\<open>fs.writeFile\<close> is a fault of the step and leaves
  no file.
\<close>

definition saveFileStep ::
  "runtime \<Rightarrow> system \<Rightarrow> nat list \<Rightarrow> string \<Rightarrow> system \<times> (exn + string)" where
  "saveFileStep rt s fileBuffer originalName =
     (let uploadDir = or_default (UPLOAD_DIR rt) ''uploads/invoices'';
          extension = path_extname rt originalName;
          filename = decimal (now_saveFile rt) @ ''-''
                       @ path_basename rt originalName extension @ extension;
          filePath = path_join rt uploadDir filename
      in case fault rt Op_saveFileStep of
           Some message \<Rightarrow> (started Op_saveFileStep s, Inl (Error message))
         | None \<Rightarrow>
             (started Op_saveFileStep (s\<lparr>files := (filePath, fileBuffer) # files s\<rparr>),
              Inr filePath))"

text \<open>The mock extraction: fixed data, whatever the file.\<close>

definition extractInvoiceDataStep :: "runtime \<Rightarrow> string \<Rightarrow> ExtractedData \<times> ExtractionConfidence" where
  "extractInvoiceDataStep rt filePath =
     (let vendor = ''Acme Corp'';
          number = ''INV-'' @ decimal (now_invoiceNumber rt);
          date = toISODate rt (now_invoiceDate rt);
          total = lit 1080;
          extractedData =
            \<lparr>vendorName = Some vendor,
             invoiceNumber = number,
             invoiceDate = Some date,
             dueDate = Some (toISODate rt (now_dueDate rt + 30 * 24 * 60 * 60 * 1000)),
             subtotal = Some (lit 1000),
             taxAmount = Some (lit 80),
             totalAmount = Some total,
             currency = Some ''USD'',
             lineItems = Some
               [\<lparr>description = ''Professional Services'',
                 quantity = lit 1,
                 unitPrice = lit 1000,
                 lineTotal = lit 1000,
                 productCode = None,
                 lineNumber = 1\<rparr>]\<rparr>;
          confidence =
            \<lparr>conf_vendorName =
               Some \<lparr>fc_value = Str vendor, fc_confidence = lit (95 / 100)\<rparr>,
             conf_invoiceNumber =
               Some \<lparr>fc_value = Str number, fc_confidence = lit (98 / 100)\<rparr>,
             conf_invoiceDate =
               Some \<lparr>fc_value = Str date, fc_confidence = lit (92 / 100)\<rparr>,
             conf_totalAmount =
               Some \<lparr>fc_value = Num total, fc_confidence = lit (97 / 100)\<rparr>,
             conf_lineItems = None,
             overallConfidence = lit (93 / 100)\<rparr>
      in (extractedData, confidence))"

section \<open>The workflow (invoiceProcessingWorkflow)\<close>

definition invoiceProcessingWorkflow ::
  "runtime \<Rightarrow> system \<Rightarrow> fileData \<Rightarrow> system \<times> (exn + InvoiceResponse)" where
  "invoiceProcessingWorkflow rt s0 fileData =
     (let s1 = started Op_validateFileStep s0 in
      case validateFileStep fileData of
        Inl e \<Rightarrow> (s1, Inl e)
      | Inr _ \<Rightarrow>
     (case saveFileStep rt s1 (buffer fileData) (originalname fileData) of
        (s2, Inl e) \<Rightarrow> (s2, Inl e)
      | (s2, Inr filePath) \<Rightarrow>
     (let (extractedData, confidence) = extractInvoiceDataStep rt filePath;
          s3 = started Op_extractInvoiceDataStep s2;
          status = validateBusinessRulesStep extractedData confidence;
          s4 = started Op_validateBusinessRulesStep s3
      in
      case createInvoiceTransaction rt s4
             \<lparr>d_vendorId = None,
              d_invoiceNumber = invoiceNumber extractedData,
              d_invoiceDate = invoiceDate extractedData,
              d_dueDate = dueDate extractedData,
              d_subtotal = subtotal extractedData,
              d_taxAmount = taxAmount extractedData,
              d_totalAmount = totalAmount extractedData,
              d_currency = or_default (currency extractedData) ''USD'',
              d_status = status,
              d_filePath = filePath,
              d_extractionConfidence = Some confidence\<rparr> of
        (s5, Inl e) \<Rightarrow> (s5, Inl e)
      | (s5, Inr invoiceId) \<Rightarrow>
     (case (case lineItems extractedData of
              None \<Rightarrow> (s5, Inr ())
            | Some items \<Rightarrow>
                if length items > 0
                then createLineItemsTransaction rt s5 invoiceId items
                else (s5, Inr ())) of
        (s6, Inl e) \<Rightarrow> (s6, Inl e)
      | (s6, Inr _) \<Rightarrow>
     (case getInvoiceByIdTransaction rt s6 invoiceId of
        (s7, Inl e) \<Rightarrow> (s7, Inl e)
      | (s7, Inr None) \<Rightarrow> (s7, Inl (Error ''Failed to retrieve created invoice''))
      | (s7, Inr (Some invoice)) \<Rightarrow> (s7, Inr invoice))))))"

text \<open>
  Steps 5 to 7 of the workflow on their own, for any extraction result: the object
  passed to \<^verbatim>\<open>createInvoiceTransaction\<close>, and the three transactions in sequence.
  \<open>invoiceProcessingWorkflow\<close> is steps 1 to 4 followed by \<open>persist_steps\<close>
  (lemma \<open>workflow_stages\<close>).
\<close>

definition workflow_invoiceData ::
  "string \<Rightarrow> ExtractedData \<Rightarrow> ExtractionConfidence \<Rightarrow> InvoiceStatus \<Rightarrow> invoiceData" where
  "workflow_invoiceData filePath extractedData confidence status =
     \<lparr>d_vendorId = None,
      d_invoiceNumber = invoiceNumber extractedData,
      d_invoiceDate = invoiceDate extractedData,
      d_dueDate = dueDate extractedData,
      d_subtotal = subtotal extractedData,
      d_taxAmount = taxAmount extractedData,
      d_totalAmount = totalAmount extractedData,
      d_currency = or_default (currency extractedData) ''USD'',
      d_status = status,
      d_filePath = filePath,
      d_extractionConfidence = Some confidence\<rparr>"

definition persist_steps ::
  "runtime \<Rightarrow> system \<Rightarrow> string \<Rightarrow> ExtractedData \<Rightarrow> ExtractionConfidence \<Rightarrow> InvoiceStatus
     \<Rightarrow> system \<times> (exn + InvoiceResponse)" where
  "persist_steps rt s4 filePath extractedData confidence status =
     (case createInvoiceTransaction rt s4
             (workflow_invoiceData filePath extractedData confidence status) of
        (s5, Inl e) \<Rightarrow> (s5, Inl e)
      | (s5, Inr invoiceId) \<Rightarrow>
     (case (case lineItems extractedData of
              None \<Rightarrow> (s5, Inr ())
            | Some items \<Rightarrow>
                if length items > 0
                then createLineItemsTransaction rt s5 invoiceId items
                else (s5, Inr ())) of
        (s6, Inl e) \<Rightarrow> (s6, Inl e)
      | (s6, Inr _) \<Rightarrow>
     (case getInvoiceByIdTransaction rt s6 invoiceId of
        (s7, Inl e) \<Rightarrow> (s7, Inl e)
      | (s7, Inr None) \<Rightarrow> (s7, Inl (Error ''Failed to retrieve created invoice''))
      | (s7, Inr (Some invoice)) \<Rightarrow> (s7, Inr invoice))))"

section \<open>The HTTP layer (src/api.ts)\<close>

text \<open>
  A response: \<^verbatim>\<open>res.status(n).json(createSuccessResponse(data))\<close>, the empty
  \<^verbatim>\<open>res.status(204).send()\<close>, or \<^verbatim>\<open>res.status(n).json(createErrorResponse(code,
  message))\<close>. The optional \<^verbatim>\<open>details\<close> of an error are left out.
\<close>

datatype api_response =
    Success nat "InvoiceResponse option"
  | NoContent
  | Failure nat string string

definition handleError :: "exn \<Rightarrow> api_response" where
  "handleError error =
     (case error of Error errorMessage \<Rightarrow>
        if str_includes errorMessage INVALID_FILE_FORMAT
          then Failure 400 INVALID_FILE_FORMAT
                 ''Invalid file format. Only PDF, PNG, and JPG files are allowed.''
        else if str_includes errorMessage FILE_TOO_LARGE
          then Failure 413 FILE_TOO_LARGE ''File size exceeds the 10MB limit.''
        else if str_includes errorMessage ''not found''
          then Failure 404 ''NOT_FOUND'' ''Resource not found.''
        else Failure 500 ''INTERNAL_ERROR'' ''An internal server error occurred.'')"

text \<open>
  The test
  \<^verbatim>\<open>/^[0-9a-f]{8}-[0-9a-f]{4}-[0-9a-f]{4}-[0-9a-f]{4}-[0-9a-f]{12}$/i\<close>:
  \<open>hex_run n\<close> reads exactly \<open>n\<close> hexadecimal digits of either case, \<open>dash\<close> one
  hyphen, and nothing may be left at the end.
\<close>

definition hex_char :: "char \<Rightarrow> bool" where
  "hex_char c = (c \<in> set ''0123456789abcdefABCDEF'')"

fun hex_run :: "nat \<Rightarrow> string \<Rightarrow> string option" where
  "hex_run 0 s = Some s"
| "hex_run (Suc n) [] = None"
| "hex_run (Suc n) (c # cs) = (if hex_char c then hex_run n cs else None)"

fun dash :: "string \<Rightarrow> string option" where
  "dash [] = None"
| "dash (c # cs) = (if c = CHR ''-'' then Some cs else None)"

definition uuid_test :: "string \<Rightarrow> bool" where
  "uuid_test s =
     (Option.bind (Option.bind (Option.bind (Option.bind (Option.bind (Option.bind
        (Option.bind (Option.bind (hex_run 8 s) dash) (hex_run 4)) dash) (hex_run 4)) dash)
        (hex_run 4)) dash) (hex_run 12) = Some [])"

text \<open>
  The body of a request as a handler finds it in \<^verbatim>\<open>req.body\<close>. \<open>None\<close> is
  \<^verbatim>\<open>undefined\<close>: what express 5 leaves there when neither \<^verbatim>\<open>express.json()\<close>
  nor \<^verbatim>\<open>express.urlencoded()\<close> has parsed a body, as for a request sent without a
  body. \<open>Some\<close> carries the fields the handler destructures, each of them optional
  (\<^verbatim>\<open>ApprovalRequest\<close> and \<^verbatim>\<open>RejectionRequest\<close> of the API). Destructuring
  \<^verbatim>\<open>undefined\<close> throws a \<^verbatim>\<open>TypeError\<close> inside the handler's \<^verbatim>\<open>try\<close>; its
  message is the JavaScript engine's, here without the quotation marks.
\<close>

record ApprovalRequest =
  apr_comments :: "string option"

record RejectionRequest =
  rej_reason :: "string option"
  rej_comments :: "string option"

definition req_body_undefined :: exn where
  "req_body_undefined = Error ''Cannot destructure property of req.body as it is undefined.''"

text \<open>
  \<^verbatim>\<open>POST /api/invoices/:id/approve\<close>. The arguments are the path parameter, the body
  and the \<^verbatim>\<open>x-user-id\<close> header; the \<^verbatim>\<open>comments\<close> of the body are read first and
  never used.
\<close>

definition approve ::
  "runtime \<Rightarrow> system \<Rightarrow> string \<Rightarrow> ApprovalRequest option \<Rightarrow> string option
     \<Rightarrow> system \<times> api_response" where
  "approve rt s invoiceId body currentUserId =
     (case body of
        None \<Rightarrow> (s, handleError req_body_undefined)
      | Some request \<Rightarrow>
     (case currentUserId of
        None \<Rightarrow>
          (s, Failure 401 ''INVALID_USER_ID'' ''Valid user authentication required for approval.'')
      | Some userId \<Rightarrow>
     (if userId = [] \<or> \<not> uuid_test userId
        then (s, Failure 401 ''INVALID_USER_ID''
                   ''Valid user authentication required for approval.'')
      else
     (case getInvoiceByIdTransaction rt s invoiceId of
        (s1, Inl e) \<Rightarrow> (s1, handleError e)
      | (s1, Inr None) \<Rightarrow> (s1, Failure 404 ''NOT_FOUND'' ''Invoice not found.'')
      | (s1, Inr (Some existingInvoice)) \<Rightarrow>
     (if r_status existingInvoice \<noteq> status_value AWAITING_APPROVAL
        then (s1, Failure 400 ''INVALID_STATUS_TRANSITION'' ''Invoice is not awaiting approval.'')
      else
     (case updateInvoiceStatusTransaction rt s1 invoiceId APPROVED None (Some userId) of
        (s2, Inl e) \<Rightarrow> (s2, handleError e)
      | (s2, Inr _) \<Rightarrow>
     (case getInvoiceByIdTransaction rt s2 invoiceId of
        (s3, Inl e) \<Rightarrow> (s3, handleError e)
      | (s3, Inr updatedInvoice) \<Rightarrow> (s3, Success 200 updatedInvoice))))))))"

text \<open>
  \<^verbatim>\<open>POST /api/invoices/:id/reject\<close>. The arguments are the path parameter and the
  body, of which the \<^verbatim>\<open>reason\<close> is tested and the \<^verbatim>\<open>comments\<close> are never used.
\<close>

definition reject ::
  "runtime \<Rightarrow> system \<Rightarrow> string \<Rightarrow> RejectionRequest option \<Rightarrow> system \<times> api_response" where
  "reject rt s invoiceId body =
     (case body of
        None \<Rightarrow> (s, handleError req_body_undefined)
      | Some request \<Rightarrow>
     (if \<not> truthy (rej_reason request)
        then (s, Failure 400 ''MISSING_REASON'' ''Rejection reason is required.'')
      else
     (case getInvoiceByIdTransaction rt s invoiceId of
        (s1, Inl e) \<Rightarrow> (s1, handleError e)
      | (s1, Inr None) \<Rightarrow> (s1, Failure 404 ''NOT_FOUND'' ''Invoice not found.'')
      | (s1, Inr (Some existingInvoice)) \<Rightarrow>
     (case updateInvoiceStatusTransaction rt s1 invoiceId REJECTED None None of
        (s2, Inl e) \<Rightarrow> (s2, handleError e)
      | (s2, Inr _) \<Rightarrow>
     (case getInvoiceByIdTransaction rt s2 invoiceId of
        (s3, Inl e) \<Rightarrow> (s3, handleError e)
      | (s3, Inr updatedInvoice) \<Rightarrow> (s3, Success 200 updatedInvoice))))))"

text \<open>\<^verbatim>\<open>DELETE /api/invoices/:id\<close>\<close>

definition delete_invoice :: "runtime \<Rightarrow> system \<Rightarrow> string \<Rightarrow> system \<times> api_response" where
  "delete_invoice rt s invoiceId =
     (case getInvoiceByIdTransaction rt s invoiceId of
        (s1, Inl e) \<Rightarrow> (s1, handleError e)
      | (s1, Inr None) \<Rightarrow> (s1, Failure 404 ''NOT_FOUND'' ''Invoice not found.'')
      | (s1, Inr (Some existingInvoice)) \<Rightarrow>
     (case deleteInvoiceTransaction rt s1 invoiceId of
        (s2, Inl e) \<Rightarrow> (s2, handleError e)
      | (s2, Inr _) \<Rightarrow> (s2, NoContent)))"

subsection \<open>Upload\<close>

text \<open>
  The multer middleware \<^verbatim>\<open>upload.single('file')\<close> as the source configures it. The
  \<^verbatim>\<open>fileFilter\<close> is the repository's; that a file longer than
  \<^verbatim>\<open>limits.fileSize\<close> aborts the request with the \<^verbatim>\<open>MulterError\<close>
  \<^verbatim>\<open>LIMIT_FILE_SIZE\<close>, after the filter has passed the file, is the library's
  behaviour, and what it does with a file of exactly that length is read from the
  \<open>runtime\<close>.
\<close>

datatype multer_outcome =
    Multer_file "fileData option"
  | Multer_filter_error exn
  | Multer_LIMIT_FILE_SIZE

definition multer_single :: "runtime \<Rightarrow> fileData option \<Rightarrow> multer_outcome" where
  "multer_single rt part =
     (case part of
        None \<Rightarrow> Multer_file None
      | Some file \<Rightarrow>
          if mimetype file \<notin> set [''application/pdf'', ''image/png'', ''image/jpeg'']
            then Multer_filter_error (Error INVALID_FILE_FORMAT)
          else if file_size file > MAX_FILE_SIZE_BYTES then Multer_LIMIT_FILE_SIZE
          else if file_size file = MAX_FILE_SIZE_BYTES \<and> \<not> multer_passes_file_at_limit rt
            then Multer_LIMIT_FILE_SIZE
          else Multer_file (Some file))"

text \<open>
  The \<^verbatim>\<open>metadata\<close> field of the form: absent, not JSON (\<^verbatim>\<open>JSON.parse\<close> throws an
  error with the given message), or JSON that does or does not fit the metadata object
  of \<^verbatim>\<open>InvoiceSubmissionSchema\<close>.
\<close>

datatype form_metadata = Metadata_absent | Metadata_not_json string | Metadata_json bool

definition InvoiceSubmissionSchema :: "fileData \<Rightarrow> form_metadata \<Rightarrow> bool" where
  "InvoiceSubmissionSchema file metadata =
     (file_size file \<le> MAX_FILE_SIZE_BYTES
      \<and> (case metadata of Metadata_json fits \<Rightarrow> fits | _ \<Rightarrow> True))"

text \<open>
  \<^verbatim>\<open>POST /api/invoices/upload\<close>, with the two error-handling middlewares at the end
  of the file for the errors multer passes on.
\<close>

definition upload :: "runtime \<Rightarrow> system \<Rightarrow> fileData option \<Rightarrow> form_metadata \<Rightarrow> system \<times> api_response" where
  "upload rt s part metadata =
     (case multer_single rt part of
        Multer_LIMIT_FILE_SIZE \<Rightarrow>
          (s, Failure 413 FILE_TOO_LARGE ''File size exceeds the 10MB limit.'')
      | Multer_filter_error (Error errorMessage) \<Rightarrow>
          if errorMessage = INVALID_FILE_FORMAT
          then (s, Failure 400 INVALID_FILE_FORMAT
                     ''Invalid file format. Only PDF, PNG, and JPG files are allowed.'')
          else (s, Failure 500 ''INTERNAL_ERROR'' ''An internal server error occurred.'')
      | Multer_file None \<Rightarrow> (s, Failure 400 ''MISSING_FILE'' ''No file provided in the request.'')
      | Multer_file (Some file) \<Rightarrow>
     (case metadata of
        Metadata_not_json errorMessage \<Rightarrow> (s, handleError (Error errorMessage))
      | _ \<Rightarrow>
     (if \<not> InvoiceSubmissionSchema file metadata
        then (s, Failure 400 ''VALIDATION_ERROR'' ''Invalid request data.'')
      else
     (case invoiceProcessingWorkflow rt s file of
        (s1, Inl e) \<Rightarrow> (s1, handleError e)
      | (s1, Inr invoice) \<Rightarrow> (s1, Success 201 (Some invoice))))))"

section \<open>Sample data\<close>

text \<open>
  An extraction result with one line item for each of the given line totals and with the
  given subtotal, tax amount and total amount, and a confidence record with the given
  overall confidence.
\<close>

definition sample_line_item :: "number \<Rightarrow> ExtractedLineItem" where
  "sample_line_item line =
     \<lparr>description = ''Professional Services'', quantity = lit 1, unitPrice = line,
      lineTotal = line, productCode = None, lineNumber = 1\<rparr>"

definition sample_extraction ::
  "number list \<Rightarrow> number option \<Rightarrow> number option \<Rightarrow> number option \<Rightarrow> ExtractedData" where
  "sample_extraction lines sub tax tot =
     \<lparr>vendorName = Some ''Acme Corp'', invoiceNumber = ''INV-1'', invoiceDate = None,
      dueDate = None, subtotal = sub, taxAmount = tax, totalAmount = tot,
      currency = Some ''USD'',
      lineItems = Some (map sample_line_item lines)\<rparr>"

definition sample_confidence :: "number \<Rightarrow> ExtractionConfidence" where
  "sample_confidence c =
     \<lparr>conf_vendorName = None, conf_invoiceNumber = None, conf_invoiceDate = None,
      conf_totalAmount = None, conf_lineItems = None, overallConfidence = c\<rparr>"

text \<open>
  Rows of seeds/initial_invoices.ts: the two users, two vendors, the invoice in
  \<open>needs_review\<close> and the invoice in \<open>awaiting_approval\<close>, each with its line item.
  The seed leaves the ids of line items and the timestamps to the database; the
  extraction confidence of the rows is left out.
\<close>

definition clerk_id :: string where
  "clerk_id = ''550e8400-e29b-41d4-a716-446655440001''"

definition manager_id :: string where
  "manager_id = ''550e8400-e29b-41d4-a716-446655440002''"

definition invoice_20 :: invoices_row where
  "invoice_20 =
     \<lparr>inv_id = ''550e8400-e29b-41d4-a716-446655440020'',
      inv_vendor_id = Some ''550e8400-e29b-41d4-a716-446655440010'',
      inv_invoice_number = ''INV-2024-001'',
      inv_invoice_date = Some ''2024-01-15'',
      inv_due_date = Some ''2024-02-14'',
      inv_subtotal = Some (lit 1000), inv_tax_amount = Some (lit 80),
      inv_total_amount = Some (lit 1080),
      inv_currency = Some ''USD'',
      inv_status = ''needs_review'',
      inv_assigned_to = Some clerk_id,
      inv_approved_by = None,
      inv_file_path = Some ''invoices/inv-2024-001.pdf'',
      inv_extraction_confidence = None,
      inv_created_at = 0, inv_updated_at = 0\<rparr>"

definition invoice_21 :: invoices_row where
  "invoice_21 =
     \<lparr>inv_id = ''550e8400-e29b-41d4-a716-446655440021'',
      inv_vendor_id = Some ''550e8400-e29b-41d4-a716-446655440011'',
      inv_invoice_number = ''OS-2024-0045'',
      inv_invoice_date = Some ''2024-01-20'',
      inv_due_date = Some ''2024-02-04'',
      inv_subtotal = Some (lit 750), inv_tax_amount = Some (lit 60),
      inv_total_amount = Some (lit 810),
      inv_currency = Some ''USD'',
      inv_status = ''awaiting_approval'',
      inv_assigned_to = Some clerk_id,
      inv_approved_by = None,
      inv_file_path = Some ''invoices/inv-2024-002.pdf'',
      inv_extraction_confidence = None,
      inv_created_at = 0, inv_updated_at = 0\<rparr>"

definition seed_database :: database where
  "seed_database =
     \<lparr>users =
        [\<lparr>usr_id = clerk_id, usr_email = ''clerk@company.com'', usr_name = ''Finance Clerk'',
          usr_role = FINANCE_CLERK\<rparr>,
         \<lparr>usr_id = manager_id, usr_email = ''manager@company.com'',
          usr_name = ''Finance Manager'', usr_role = FINANCE_MANAGER\<rparr>],
      vendors =
        [\<lparr>ven_id = ''550e8400-e29b-41d4-a716-446655440010'', ven_name = ''TechSupply Corp''\<rparr>,
         \<lparr>ven_id = ''550e8400-e29b-41d4-a716-446655440011'',
          ven_name = ''Office Solutions LLC''\<rparr>],
      invoices = [invoice_20, invoice_21],
      line_items =
        [\<lparr>li_id = ''550e8400-e29b-41d4-a716-446655440030'',
          li_invoice_id = ''550e8400-e29b-41d4-a716-446655440020'',
          li_description = ''Laptop Computer - Dell XPS 13'',
          li_quantity = lit 2, li_unit_price = lit 500, li_line_total = lit 1000,
          li_product_code = Some ''DELL-XPS13'', li_line_number = 1\<rparr>,
         \<lparr>li_id = ''550e8400-e29b-41d4-a716-446655440031'',
          li_invoice_id = ''550e8400-e29b-41d4-a716-446655440021'',
          li_description = ''Office Chairs - Ergonomic'',
          li_quantity = lit 5, li_unit_price = lit 150, li_line_total = lit 750,
          li_product_code = Some ''CHAIR-ERG-001'', li_line_number = 1\<rparr>]\<rparr>"

definition seed_system :: system where
  "seed_system = \<lparr>db = seed_database, files = [], executed = []\<rparr>"

text \<open>
  A runtime in which nothing fails. The values of Node's path functions are those for a
  file name without directory and extension.
\<close>

definition sample_runtime :: runtime where
  "sample_runtime =
     \<lparr>fault = (\<lambda>op. None),
      UPLOAD_DIR = None,
      path_extname = (\<lambda>p. []),
      path_basename = (\<lambda>p ext. p),
      path_join = (\<lambda>dir name. dir @ ''/'' @ name),
      now_saveFile = 1706400000000,
      now_invoiceNumber = 1706400000001,
      now_invoiceDate = 1706400000001,
      now_dueDate = 1706400000001,
      toISODate = (\<lambda>ms. if ms < 1706400000000 + 30 * 24 * 60 * 60 * 1000
                          then ''2024-01-28'' else ''2024-02-27''),
      gen_invoice_id = ''550e8400-e29b-41d4-a716-446655440040'',
      gen_line_item_id = (\<lambda>k. ''550e8400-e29b-41d4-a716-44665544005'' @ decimal k),
      db_now = 1706400000002,
      multer_passes_file_at_limit = True\<rparr>"

definition sample_file :: "nat \<Rightarrow> fileData" where
  "sample_file n =
     \<lparr>buffer = [37, 80, 68, 70], originalname = ''invoice'', mimetype = ''application/pdf'',
      file_size = n\<rparr>"

text \<open>The same runtime, except that the database fails in \<^verbatim>\<open>createLineItemsTransaction\<close>.\<close>

definition failing_line_items_runtime :: runtime where
  "failing_line_items_runtime =
     sample_runtime\<lparr>fault := (\<lambda>op. if op = Op_createLineItemsTransaction
                                     then Some ''Connection terminated unexpectedly''
                                     else None)\<rparr>"

section \<open>Properties of the numbers\<close>

text \<open>
  The rounding is the one of IEEE 754. \<open>ilog2\<close> is the binary exponent; for
  \<open>x \<noteq> 0\<close>, \<open>fl x\<close> is a multiple \<open>n * u\<close> of the spacing \<open>u\<close> of the
  doubles around \<open>x\<close> with a significand \<open>n\<close> of at most 53 bits, it is at most
  half a spacing away from \<open>x\<close>, and a tie goes to the even significand;
  \<open>rounded\<close> is an infinity exactly from magnitude \<open>2 ^ 1024\<close> on.
\<close>

lemma round_half_even_nearest: "\<bar>of_int (round_half_even q) - q\<bar> \<le> 1 / 2"
proof -
  define f where "f = \<lfloor>q\<rfloor>"
  have "of_int f \<le> q" and "q < of_int f + 1"
    unfolding f_def by linarith+
  then show ?thesis
    unfolding round_half_even_def Let_def f_def [symmetric]
    by (simp add: abs_if)
qed

lemma ilog2_bounds:
  assumes "0 < x"
  shows "2 powi ilog2 x \<le> x \<and> x < 2 powi (ilog2 x + 1)"
proof (cases "1 \<le> x")
  case True
  define m where "m = \<lfloor>x\<rfloor>"
  have pos: "0 < m" using True unfolding m_def by linarith
  have mx: "of_int m \<le> x" "x < of_int m + 1" unfolding m_def by linarith+
  from bitlen_bounds [OF pos]
  have lo: "2 ^ nat (bitlen m - 1) \<le> m" and hi: "m < 2 ^ nat (bitlen m)"
    by auto
  have b: "0 < bitlen m" using pos bitlen_bounds [OF pos] by (cases "bitlen m \<le> 0") auto
  have e: "ilog2 x = bitlen m - 1" using True by (simp add: ilog2_def m_def)
  have "(2::rat) powi (bitlen m - 1) = 2 ^ nat (bitlen m - 1)"
    using b by (simp add: power_int_def)
  also have "\<dots> = of_int (2 ^ nat (bitlen m - 1))" by simp
  also have "\<dots> \<le> of_int m" using lo by (simp only: of_int_le_iff)
  finally have 1: "2 powi ilog2 x \<le> x" using mx e by simp
  have "m + 1 \<le> 2 ^ nat (bitlen m)" using hi by simp
  then have "(of_int (m + 1) :: rat) \<le> of_int (2 ^ nat (bitlen m))" by (simp only: of_int_le_iff)
  then have "x < 2 ^ nat (bitlen m)" using mx by simp
  moreover have "(2::rat) powi (bitlen m) = 2 ^ nat (bitlen m)"
    using b by (simp add: power_int_def)
  ultimately have 2: "x < 2 powi (ilog2 x + 1)" using e by simp
  show ?thesis using 1 2 by simp
next
  case False
  define y where "y = 1 / x"
  have y: "1 < y" using False assms by (simp add: y_def)
  define m where "m = \<lceil>y\<rceil> - 1"
  have pos: "0 < m" using y unfolding m_def by linarith
  have my: "of_int m < y" "y \<le> of_int m + 1" unfolding m_def by linarith+
  from bitlen_bounds [OF pos]
  have lo: "2 ^ nat (bitlen m - 1) \<le> m" and hi: "m < 2 ^ nat (bitlen m)"
    by auto
  have b: "0 < bitlen m" using pos bitlen_bounds [OF pos] by (cases "bitlen m \<le> 0") auto
  have e: "ilog2 x = - bitlen m" using False by (simp add: ilog2_def m_def y_def)
  have "m + 1 \<le> 2 ^ nat (bitlen m)" using hi by simp
  then have "(of_int (m + 1) :: rat) \<le> of_int (2 ^ nat (bitlen m))" by (simp only: of_int_le_iff)
  then have "y \<le> 2 ^ nat (bitlen m)" using my by simp
  then have "1 / x \<le> 2 ^ nat (bitlen m)" by (simp add: y_def)
  then have "1 / 2 ^ nat (bitlen m) \<le> x"
    using assms by (simp add: field_simps)
  moreover have "(2::rat) powi (- bitlen m) = 1 / 2 ^ nat (bitlen m)"
    using b by (simp add: power_int_def field_simps)
  ultimately have 1: "2 powi ilog2 x \<le> x" using e by simp
  have "(of_int (2 ^ nat (bitlen m - 1)) :: rat) \<le> of_int m" using lo by (simp only: of_int_le_iff)
  then have "(2::rat) ^ nat (bitlen m - 1) \<le> of_int m" by simp
  then have "2 ^ nat (bitlen m - 1) < y" using my by linarith
  then have "2 ^ nat (bitlen m - 1) < 1 / x" by (simp add: y_def)
  then have "x < 1 / 2 ^ nat (bitlen m - 1)"
    using assms by (simp add: field_simps)
  moreover have "(2::rat) powi (- bitlen m + 1) = 1 / 2 ^ nat (bitlen m - 1)"
  proof (cases "bitlen m = 1")
    case True
    then show ?thesis by simp
  next
    case False
    then have "- bitlen m + 1 < 0" using b by simp
    then show ?thesis
      by (simp add: power_int_def field_simps nat_diff_distrib)
  qed
  ultimately have 2: "x < 2 powi (ilog2 x + 1)" using e by simp
  show ?thesis using 1 2 by simp
qed


lemma round_half_even_tie: "q - of_int \<lfloor>q\<rfloor> = 1 / 2 \<Longrightarrow> even (round_half_even q)"
  by (simp add: round_half_even_def Let_def)

lemma fl_nearest_double:
  assumes "x \<noteq> 0"
  defines "e \<equiv> max (ilog2 \<bar>x\<bar>) (- 1022)"
  defines "u \<equiv> 2 powi (e - 52)"
  defines "n \<equiv> round_half_even (x / u)"
  shows "fl x = of_int n * u" and "\<bar>fl x - x\<bar> \<le> u / 2" and "\<bar>n\<bar> \<le> 2 ^ 53"
proof -
  have u: "0 < u" by (simp add: u_def)
  show form: "fl x = of_int n * u"
    using assms(1) by (simp add: fl_def Let_def n_def u_def e_def)
  have near: "\<bar>of_int n - x / u\<bar> \<le> 1 / 2"
    unfolding n_def by (rule round_half_even_nearest)
  have "\<bar>fl x - x\<bar> = \<bar>of_int n - x / u\<bar> * u"
    using u by (simp add: form abs_mult [symmetric] field_simps)
  also have "\<dots> \<le> 1 / 2 * u"
    using near u by (intro mult_right_mono) simp_all
  finally show "\<bar>fl x - x\<bar> \<le> u / 2" by simp
  have "\<bar>x\<bar> < 2 powi (ilog2 \<bar>x\<bar> + 1)"
    using ilog2_bounds [of "\<bar>x\<bar>"] assms(1) by simp
  also have "\<dots> \<le> 2 powi (e + 1)"
    by (intro power_int_increasing) (simp_all add: e_def)
  also have "\<dots> = 2 ^ 53 * u"
    by (simp add: u_def power_int_diff power_int_add)
  finally have "\<bar>x / u\<bar> < 2 ^ 53"
    using u by (simp add: field_simps abs_if split: if_splits)
  then have "\<bar>x / u\<bar> < of_int (2 ^ 53)" by simp
  then have "\<bar>(of_int n :: rat)\<bar> < of_int (2 ^ 53) + 1"
    using near by linarith
  then have "(of_int \<bar>n\<bar> :: rat) < of_int (2 ^ 53 + 1)" by simp
  then have "\<bar>n\<bar> < 2 ^ 53 + 1" by (simp only: of_int_less_iff)
  then show "\<bar>n\<bar> \<le> 2 ^ 53" by simp
qed


lemma rounded_overflow:
  "rounded x = (if 2 powi 1024 \<le> fl x then PosInfinity
                else if fl x \<le> - (2 powi 1024) then NegInfinity
                else Finite (fl x))"
proof (cases "fl x = 0")
  case True
  then show ?thesis by (simp add: rounded_def)
next
  case False
  define r where "r = fl x"
  have r: "r \<noteq> 0" using False by (simp add: r_def)
  have bounds: "2 powi ilog2 \<bar>r\<bar> \<le> \<bar>r\<bar>" "\<bar>r\<bar> < 2 powi (ilog2 \<bar>r\<bar> + 1)"
    using ilog2_bounds [of "\<bar>r\<bar>"] r by simp_all
  have "(1024 \<le> ilog2 \<bar>r\<bar>) = (2 powi 1024 \<le> \<bar>r\<bar>)"
  proof
    assume "1024 \<le> ilog2 \<bar>r\<bar>"
    then have "(2::rat) powi 1024 \<le> 2 powi ilog2 \<bar>r\<bar>"
      by (intro power_int_increasing) simp_all
    then show "2 powi 1024 \<le> \<bar>r\<bar>" using bounds(1) by linarith
  next
    assume big: "2 powi 1024 \<le> \<bar>r\<bar>"
    show "1024 \<le> ilog2 \<bar>r\<bar>"
    proof (rule ccontr)
      assume "\<not> 1024 \<le> ilog2 \<bar>r\<bar>"
      then have "(2::rat) powi (ilog2 \<bar>r\<bar> + 1) \<le> 2 powi 1024"
        by (intro power_int_increasing) simp_all
      then show False using bounds(2) big by linarith
    qed
  qed
  moreover have "(0::rat) < 2 powi 1024" by (rule zero_less_power_int) simp
  ultimately show ?thesis
    using r unfolding rounded_def Let_def r_def [symmetric]
    by (auto simp: abs_if split: if_splits)
qed

lemma no_comparison_with_NaN [simp]:
  "\<not> (a::number) < NaN" "\<not> NaN < (a::number)" "\<not> (a::number) \<le> NaN" "\<not> NaN \<le> (a::number)"
  by (cases a; simp)+

lemma NaN_absorbs [simp]:
  "(a::number) + NaN = NaN" "NaN + (a::number) = NaN" "(a::number) - NaN = NaN"
  "NaN - (a::number) = NaN"
  by (cases a; simp add: minus_number_def)+

text \<open>
  The arithmetic at some known doubles: 0.1, 0.1 + 0.2 = 0.30000000000000004,
  100.01 - 100 = 0.010000000000005116, and the absorption of 1 at 2 ^ 53.
\<close>

lemma double_arithmetic_examples:
  "lit (1 / 10) = Finite (3602879701896397 / 2 ^ 55)"
  "lit (1 / 10) + lit (2 / 10) = Finite (1351079888211149 / 2 ^ 52)"
  "lit (10001 / 100) - lit 100 = Finite (5629499534216 / 2 ^ 49)"
  "lit 9007199254740992 + lit 1 = Finite 9007199254740992"
  "lit 9007199254740992 + lit 3 = Finite 9007199254740996"
  by code_simp+


lemma or_zero_defined: "x \<noteq> NaN \<Longrightarrow> or_zero (Some x) = x"
  by (auto simp: falsy_def)

lemma thresholds:
  "LOW_CONFIDENCE_THRESHOLD = Finite (3 / 4)"
  "CONFIDENCE_THRESHOLD_AUTO_APPROVAL = Finite (4278419646001971 / 2 ^ 52)"
  "MATH_TOLERANCE = Finite (5764607523034235 / 2 ^ 59)"
  by code_simp+

lemma zero_difference: "\<bar>(0::number) - 0\<bar> = 0" "\<bar>(0::number) + 0 - 0\<bar> = 0"
  by code_simp+

section \<open>Properties of the validator\<close>

lemma line_totals_added:
  "foldl (\<lambda>sum item. sum + lineTotal item) start xs
     = fold (\<lambda>x total. total + x) (map lineTotal xs) start"
  by (induction xs arbitrary: start) simp_all

lemma lineItemsTotal_sum_in_order:
  assumes "lineItems extractedData = Some items
           \<or> lineItems extractedData = None \<and> items = []"
  shows "lineItemsTotal extractedData = or_zero (Some (sum_in_order (map lineTotal items)))"
proof -
  have "lineItemsTotal extractedData = or_zero (Some (sum_in_order (map lineTotal items)))"
    if "lineItems extractedData = Some items"
    using that by (simp only: lineItemsTotal_def sum_in_order_def line_totals_added option.map)
  moreover have "lineItemsTotal extractedData = or_zero (Some (sum_in_order (map lineTotal items)))"
    if "lineItems extractedData = None \<and> items = []"
    using that by (simp add: lineItemsTotal_def sum_in_order_def falsy_def)
  ultimately show ?thesis
    using assms by blast
qed

lemma subtotalDiff_sum_in_order:
  assumes "lineItems extractedData = Some items
           \<or> lineItems extractedData = None \<and> items = []"
    and "subtotal extractedData = Some sub"
    and "sum_in_order (map lineTotal items) \<noteq> NaN"
    and "sub \<noteq> NaN"
  shows "subtotalDiff extractedData = \<bar>sum_in_order (map lineTotal items) - sub\<bar>"
  using assms(2-4) lineItemsTotal_sum_in_order [OF assms(1)]
  by (simp add: subtotalDiff_def or_zero_defined del: or_zero.simps)


text \<open>
  Claim C5, as the code has it. The validator adds the line totals in double arithmetic.
  Whenever that sum (0 when the line items are undefined) differs from the subtotal by
  more than the double 0.01, the difference again taken in double arithmetic, the
  decision is \<open>needs_review\<close>, whatever the overall confidence. The premise is stated
  on \<open>sum_in_order\<close> of the line totals, not on the validator's own variables.
\<close>

theorem unreconciled_line_items_need_review:
  assumes "lineItems extractedData = Some items
           \<or> lineItems extractedData = None \<and> items = []"
    and "subtotal extractedData = Some sub"
    and "lit (1 / 100) < \<bar>sum_in_order (map lineTotal items) - sub\<bar>"
  shows "validateBusinessRulesStep extractedData confidence = NEEDS_REVIEW"
proof -
  have "sum_in_order (map lineTotal items) \<noteq> NaN" and "sub \<noteq> NaN"
    using assms(3) by auto
  then have "subtotalDiff extractedData = \<bar>sum_in_order (map lineTotal items) - sub\<bar>"
    using assms(1,2) by (intro subtotalDiff_sum_in_order)
  then show ?thesis
    using assms(3) by (simp add: validateBusinessRulesStep_def MATH_TOLERANCE_def)
qed

theorem unreconciled_line_items_need_review_witness:
  "lit (1 / 100) < \<bar>sum_in_order [lit 1000] - lit 900\<bar>
   \<and> validateBusinessRulesStep
         (sample_extraction [lit 1000] (Some (lit 900)) (Some (lit 80)) (Some (lit 980)))
         (sample_confidence (lit (99 / 100))) = NEEDS_REVIEW"
proof -
  have gap: "lit (1 / 100) < \<bar>sum_in_order [lit 1000] - lit 900\<bar>"
    by code_simp
  have "validateBusinessRulesStep
         (sample_extraction [lit 1000] (Some (lit 900)) (Some (lit 80)) (Some (lit 980)))
         (sample_confidence (lit (99 / 100))) = NEEDS_REVIEW"
    by (rule unreconciled_line_items_need_review
          [where items = "[sample_line_item (lit 1000)]" and sub = "lit 900"])
       (simp_all add: sample_extraction_def sample_line_item_def gap)
  with gap show ?thesis by simp
qed

text \<open>
  Claim C5 as stated fails. The line totals 9007199254740992 and 1 add up to
  9007199254740993, which is 1 more than the subtotal 9007199254740992, far above 0.01.
  All three numbers and the tax-free total are doubles; the validator's sum is
  9007199254740992, since 9007199254740993 is not a double and the addition rounds to
  the even neighbour, so it finds no difference and, at confidence 0.99, decides
  \<open>awaiting_approval\<close>.
\<close>

theorem absorbed_line_total_counterexample:
  "lit 9007199254740992 = Finite 9007199254740992 \<and> lit 1 = Finite 1
   \<and> (1 / 100 :: rat) < \<bar>(9007199254740992 + 1) - 9007199254740992\<bar>
   \<and> validateBusinessRulesStep
        (sample_extraction [lit 9007199254740992, lit 1] (Some (lit 9007199254740992)) None
           (Some (lit 9007199254740992)))
        (sample_confidence (lit (99 / 100))) = AWAITING_APPROVAL"
  by code_simp




text \<open>
  Claim C10. When the line items are undefined or empty and subtotal, tax amount and
  total amount are all undefined, each is read as zero: both differences are 0, and the
  decision depends on the overall confidence alone, \<open>awaiting_approval\<close> from 0.95 on
  and \<open>needs_review\<close> below.
\<close>

theorem absent_amounts_count_as_zero:
  assumes "lineItems extractedData = None \<or> lineItems extractedData = Some []"
    and "subtotal extractedData = None"
    and "taxAmount extractedData = None"
    and "totalAmount extractedData = None"
  shows "subtotalDiff extractedData = 0 \<and> totalDiff extractedData = 0
         \<and> validateBusinessRulesStep extractedData confidence =
             (if overallConfidence confidence \<ge> CONFIDENCE_THRESHOLD_AUTO_APPROVAL
              then AWAITING_APPROVAL else NEEDS_REVIEW)"
proof -
  have total: "lineItemsTotal extractedData = 0"
    using assms(1) by (auto simp: lineItemsTotal_def falsy_def)
  have sub: "subtotalDiff extractedData = 0"
    using total assms(2) by (simp add: subtotalDiff_def zero_difference)
  have tot: "totalDiff extractedData = 0"
    using assms(2-4) by (simp add: totalDiff_def zero_difference)
  have tolerated: "\<not> MATH_TOLERANCE < 0"
    by code_simp
  have low: "\<not> CONFIDENCE_THRESHOLD_AUTO_APPROVAL \<le> c" if "c < LOW_CONFIDENCE_THRESHOLD" for c
    using that by (cases c) (simp_all add: thresholds)
  show ?thesis
    using sub tot tolerated low [of "overallConfidence confidence"]
    by (simp add: validateBusinessRulesStep_def)
qed

theorem absent_amounts_count_as_zero_witness:
  "validateBusinessRulesStep
     ((sample_extraction [] None None None)\<lparr>lineItems := None\<rparr>) (sample_confidence (lit (96 / 100)))
     = AWAITING_APPROVAL
   \<and> validateBusinessRulesStep
     ((sample_extraction [] None None None)\<lparr>lineItems := Some []\<rparr>) (sample_confidence (lit (94 / 100)))
     = NEEDS_REVIEW"
proof -
  have above: "CONFIDENCE_THRESHOLD_AUTO_APPROVAL \<le> lit (96 / 100)"
    and below: "\<not> CONFIDENCE_THRESHOLD_AUTO_APPROVAL \<le> lit (94 / 100)"
    by code_simp+
  show ?thesis
    using absent_amounts_count_as_zero
        [of "(sample_extraction [] None None None)\<lparr>lineItems := None\<rparr>"
            "sample_confidence (lit (96 / 100))"]
      absent_amounts_count_as_zero
        [of "(sample_extraction [] None None None)\<lparr>lineItems := Some []\<rparr>"
            "sample_confidence (lit (94 / 100))"]
      above below
    by (simp add: sample_extraction_def sample_confidence_def)
qed

section \<open>Outcomes of the operations\<close>

lemma db_started [simp]: "db (started op s) = db s"
  by (simp add: started_def)

lemma files_started [simp]: "files (started op s) = files s"
  by (simp add: started_def)

lemma executed_started [simp]: "executed (started op s) = executed s @ [op]"
  by (simp add: started_def)

lemma DBOS_transaction_outcome:
  "(\<exists>e. DBOS_transaction op rt s body = (started op s, Inl e))
   \<or> (\<exists>d v. fault rt op = None \<and> body (db s) = Inr (d, v)
            \<and> DBOS_transaction op rt s body = (started op (s\<lparr>db := d\<rparr>), Inr v))"
  by (auto simp: DBOS_transaction_def split: option.splits sum.splits)

lemma saveFileStep_outcome:
  "(\<exists>e. saveFileStep rt s fileBuffer originalName = (started Op_saveFileStep s, Inl e))
   \<or> (\<exists>filePath. fault rt Op_saveFileStep = None
         \<and> saveFileStep rt s fileBuffer originalName =
             (started Op_saveFileStep (s\<lparr>files := (filePath, fileBuffer) # files s\<rparr>),
              Inr filePath))"
  by (auto simp: saveFileStep_def Let_def split: option.splits)

lemma createInvoiceTransaction_outcome:
  "(\<exists>e. createInvoiceTransaction rt s d = (started Op_createInvoiceTransaction s, Inl e))
   \<or> createInvoiceTransaction rt s d =
        (started Op_createInvoiceTransaction
           (s\<lparr>db := (db s)\<lparr>invoices := invoices (db s) @ [new_invoices_row rt d]\<rparr>\<rparr>),
         Inr (gen_invoice_id rt))"
  by (auto simp: createInvoiceTransaction_def DBOS_transaction_def insert_invoices_def
      split: option.splits sum.splits)

lemma createLineItemsTransaction_outcome:
  "(\<exists>e. createLineItemsTransaction rt s invoiceId items
          = (started Op_createLineItemsTransaction s, Inl e))
   \<or> createLineItemsTransaction rt s invoiceId items =
        (started Op_createLineItemsTransaction
           (s\<lparr>db := (db s)\<lparr>line_items :=
                     line_items (db s) @ new_line_items_rows rt invoiceId items\<rparr>\<rparr>),
         Inr ())"
  by (auto simp: createLineItemsTransaction_def DBOS_transaction_def insert_line_items_def
      new_line_items_rows_def split: option.splits sum.splits)

lemma getInvoiceByIdTransaction_outcome:
  "(\<exists>e. getInvoiceByIdTransaction rt s invoiceId
          = (started Op_getInvoiceByIdTransaction s, Inl e))
   \<or> (fault rt Op_getInvoiceByIdTransaction = None
       \<and> getInvoiceByIdTransaction rt s invoiceId =
          (started Op_getInvoiceByIdTransaction s, Inr (select_invoice (db s) invoiceId)))"
  by (auto simp: getInvoiceByIdTransaction_def DBOS_transaction_def split: option.splits)

lemma status_value_in_enum: "status_value status \<in> set invoices_status_enum"
  by (cases status) (simp_all add: invoices_status_enum_def)

lemma find_appended:
  "k \<notin> set (map key xs) \<Longrightarrow> key y = k \<Longrightarrow> find (\<lambda>r. key r = k) (xs @ [y]) = Some y"
  by (induction xs) auto

lemma find_SomeD: "find P xs = Some x \<Longrightarrow> x \<in> set xs \<and> P x"
  by (induction xs) (auto split: if_splits)

lemma find_updated:
  assumes "\<And>r. inv_id (f r) = inv_id r"
  shows "find (\<lambda>r. inv_id r = k) (map (\<lambda>r. if inv_id r = k then f r else r) xs)
           = map_option f (find (\<lambda>r. inv_id r = k) xs)"
  using assms by (induction xs) auto

lemma saveFileStep_succeeds:
  assumes "fault rt Op_saveFileStep = None"
  shows "\<exists>filePath. saveFileStep rt s fileBuffer originalName =
             (started Op_saveFileStep (s\<lparr>files := (filePath, fileBuffer) # files s\<rparr>),
              Inr filePath)"
  using assms by (simp add: saveFileStep_def Let_def)

lemma createInvoiceTransaction_succeeds:
  assumes "fault rt Op_createInvoiceTransaction = None"
    and "gen_invoice_id rt \<notin> set (map inv_id (invoices (db s)))"
    and "d_vendorId d = None"
  shows "createInvoiceTransaction rt s d =
        (started Op_createInvoiceTransaction
           (s\<lparr>db := (db s)\<lparr>invoices := invoices (db s) @ [new_invoices_row rt d]\<rparr>\<rparr>),
         Inr (gen_invoice_id rt))"
  using assms status_value_in_enum [of "d_status d"]
  by (simp add: createInvoiceTransaction_def DBOS_transaction_def insert_invoices_def
      status_check_ok_def foreign_keys_ok_def new_invoices_row_def)

lemma createLineItemsTransaction_succeeds:
  assumes "fault rt Op_createLineItemsTransaction = None"
    and "gen_line_item_id rt 0 \<notin> set (map li_id (line_items (db s)))"
    and "invoiceId \<in> set (map inv_id (invoices (db s)))"
  shows "createLineItemsTransaction rt s invoiceId [item] =
        (started Op_createLineItemsTransaction
           (s\<lparr>db := (db s)\<lparr>line_items :=
                     line_items (db s) @ new_line_items_rows rt invoiceId [item]\<rparr>\<rparr>),
         Inr ())"
  using assms
  by (simp add: createLineItemsTransaction_def DBOS_transaction_def insert_line_items_def
      new_line_items_rows_def)

lemma getInvoiceByIdTransaction_succeeds:
  assumes "fault rt Op_getInvoiceByIdTransaction = None"
  shows "getInvoiceByIdTransaction rt s invoiceId =
          (started Op_getInvoiceByIdTransaction s, Inr (select_invoice (db s) invoiceId))"
  using assms by (simp add: getInvoiceByIdTransaction_def DBOS_transaction_def)

lemma updateInvoiceStatusTransaction_succeeds:
  assumes "fault rt Op_updateInvoiceStatusTransaction = None"
    and "list_all (foreign_keys_ok (db s)) (invoices (db s))"
    and "references assignedTo (map usr_id (users (db s)))"
    and "references approvedBy (map usr_id (users (db s)))"
  shows "updateInvoiceStatusTransaction rt s invoiceId status assignedTo approvedBy =
     (started Op_updateInvoiceStatusTransaction
        (s\<lparr>db := (db s)\<lparr>invoices :=
           map (\<lambda>r. if inv_id r = invoiceId
                    then r\<lparr>inv_status := status_value status,
                           inv_assigned_to :=
                             (case assignedTo of None \<Rightarrow> inv_assigned_to r | Some u \<Rightarrow> Some u),
                           inv_approved_by :=
                             (case approvedBy of None \<Rightarrow> inv_approved_by r | Some u \<Rightarrow> Some u)\<rparr>
                    else r) (invoices (db s))\<rparr>\<rparr>),
      Inr ())"
proof -
  let ?f = "\<lambda>r. r\<lparr>inv_status := status_value status,
                           inv_assigned_to :=
                             (case assignedTo of None \<Rightarrow> inv_assigned_to r | Some u \<Rightarrow> Some u),
                           inv_approved_by :=
                             (case approvedBy of None \<Rightarrow> inv_approved_by r | Some u \<Rightarrow> Some u)\<rparr>"
  let ?updated = "map ?f (filter (\<lambda>r. inv_id r = invoiceId) (invoices (db s)))"
  have check: "list_all status_check_ok ?updated"
    using status_value_in_enum [of status] by (simp add: list_all_iff status_check_ok_def)
  have keys: "list_all (foreign_keys_ok (db s)) ?updated"
    using assms(2-4)
    by (auto simp: list_all_iff foreign_keys_ok_def split: option.splits)
  show ?thesis
    using check keys assms(1)
    by (simp add: updateInvoiceStatusTransaction_def DBOS_transaction_def update_invoices_def)
qed

lemma select_invoice_found:
  assumes "find (\<lambda>r. inv_id r = invoiceId) (invoices d) = Some row"
  shows "\<exists>invoice. select_invoice d invoiceId = Some invoice \<and> r_status invoice = inv_status row"
  using assms by (simp add: select_invoice_def mapDatabaseToInvoiceResponse_def)

lemma handleError_is_failure: "\<exists>n code message. handleError e = Failure n code message"
  by (cases e) (simp add: handleError_def)

lemma uuid_test_nonempty: "uuid_test userId \<Longrightarrow> userId \<noteq> []"
  by (auto simp: uuid_test_def eval_nat_numeral)

lemma inv_id_new_invoices_row [simp]: "inv_id (new_invoices_row rt d) = gen_invoice_id rt"
  by (simp add: new_invoices_row_def)

lemma inv_status_new_invoices_row [simp]:
  "inv_status (new_invoices_row rt d) = status_value (d_status d)"
  by (simp add: new_invoices_row_def)

section \<open>Facts about the sample data\<close>

lemmas sample_defs = sample_runtime_def seed_system_def seed_database_def invoice_20_def
  invoice_21_def clerk_id_def manager_id_def sample_file_def

lemmas transaction_defs = DBOS_transaction_def started_def getInvoiceByIdTransaction_def
  createInvoiceTransaction_def createLineItemsTransaction_def select_invoice_def
  insert_invoices_def insert_line_items_def status_check_ok_def foreign_keys_ok_def
  invoices_status_enum_def mapDatabaseToInvoiceResponse_def joined_vendor_name_def
  joined_user_id_def

lemmas workflow_defs = persist_steps_def workflow_invoiceData_def validateFileStep_def
  saveFileStep_def extractInvoiceDataStep_def new_invoices_row_def new_line_items_rows_def
  allowedTypes_def MAX_FILE_SIZE_BYTES_def decimal.simps digit_def Let_def

lemma uuid_test_clerk: "uuid_test ''550e8400-e29b-41d4-a716-446655440001''"
  by code_simp


lemma seed_consistent: "list_all (foreign_keys_ok (db seed_system)) (invoices (db seed_system))"
  by (simp add: sample_defs foreign_keys_ok_def)

lemma seed_invoice_20:
  "find (\<lambda>r. inv_id r = ''550e8400-e29b-41d4-a716-446655440020'') (invoices (db seed_system))
     = Some invoice_20"
  by (simp add: seed_system_def seed_database_def invoice_20_def)

lemma seed_invoice_21:
  "find (\<lambda>r. inv_id r = ''550e8400-e29b-41d4-a716-446655440021'') (invoices (db seed_system))
     = Some invoice_21"
  by (simp add: seed_system_def seed_database_def invoice_20_def invoice_21_def)

lemma sample_runtime_quiet: "\<forall>op. fault sample_runtime op = None"
  by (simp add: sample_runtime_def)

lemma sample_ids_fresh:
  "gen_invoice_id sample_runtime \<notin> set (map inv_id (invoices (db seed_system)))"
  "gen_line_item_id sample_runtime 0 \<notin> set (map li_id (line_items (db seed_system)))"
  by (simp_all add: sample_defs decimal.simps digit_def)

section \<open>Properties of the workflow\<close>

lemma workflow_stages:
  "invoiceProcessingWorkflow rt s0 fileData =
     (case validateFileStep fileData of
        Inl e \<Rightarrow> (started Op_validateFileStep s0, Inl e)
      | Inr _ \<Rightarrow>
          (case saveFileStep rt (started Op_validateFileStep s0) (buffer fileData)
                  (originalname fileData) of
             (s2, Inl e) \<Rightarrow> (s2, Inl e)
           | (s2, Inr filePath) \<Rightarrow>
               persist_steps rt
                 (started Op_validateBusinessRulesStep (started Op_extractInvoiceDataStep s2))
                 filePath
                 (fst (extractInvoiceDataStep rt filePath))
                 (snd (extractInvoiceDataStep rt filePath))
                 (validateBusinessRulesStep (fst (extractInvoiceDataStep rt filePath))
                    (snd (extractInvoiceDataStep rt filePath)))))"
  by (simp add: invoiceProcessingWorkflow_def persist_steps_def workflow_invoiceData_def
      Let_def case_prod_beta split: sum.splits)

lemma read_back_db:
  "db (fst (case getInvoiceByIdTransaction rt s invoiceId of
              (s7, Inl e) \<Rightarrow> (s7, Inl e)
            | (s7, Inr None) \<Rightarrow> (s7, Inl (Error ''Failed to retrieve created invoice''))
            | (s7, Inr (Some invoice)) \<Rightarrow> (s7, Inr invoice))) = db s"
  using getInvoiceByIdTransaction_outcome [of rt s invoiceId]
  by (auto split: option.splits)

lemma persist_steps_outcomes:
  fixes rt s4 filePath extractedData confidence status
  defines "run \<equiv> persist_steps rt s4 filePath extractedData confidence status"
    and "row \<equiv> new_invoices_row rt (workflow_invoiceData filePath extractedData confidence status)"
    and "rows \<equiv> new_line_items_rows rt (gen_invoice_id rt)
                   (case lineItems extractedData of None \<Rightarrow> [] | Some items \<Rightarrow> items)"
  shows "(db (fst run) = db s4 \<and> isl (snd run))
       \<or> (db (fst run) = (db s4)\<lparr>invoices := invoices (db s4) @ [row]\<rparr>
           \<and> isl (snd run) \<and> last (executed (fst run)) = Op_createLineItemsTransaction)
       \<or> db (fst run) = (db s4)\<lparr>invoices := invoices (db s4) @ [row],
                                   line_items := line_items (db s4) @ rows\<rparr>"
proof -
  let ?data = "workflow_invoiceData filePath extractedData confidence status"
  let ?s5 = "started Op_createInvoiceTransaction
               (s4\<lparr>db := (db s4)\<lparr>invoices := invoices (db s4) @ [row]\<rparr>\<rparr>)"
  consider (invoice_failed) e where
      "createInvoiceTransaction rt s4 ?data = (started Op_createInvoiceTransaction s4, Inl e)"
    | (invoice_committed)
      "createInvoiceTransaction rt s4 ?data = (?s5, Inr (gen_invoice_id rt))"
    using createInvoiceTransaction_outcome [of rt s4 ?data] by (auto simp: row_def)
  then show ?thesis
  proof cases
    case invoice_failed
    then show ?thesis by (simp add: run_def persist_steps_def)
  next
    case invoice_committed
    show ?thesis
    proof (cases "lineItems extractedData")
      case None
      then have "db (fst run) = (db s4)\<lparr>invoices := invoices (db s4) @ [row]\<rparr>"
        using invoice_committed by (simp add: run_def persist_steps_def read_back_db)
      then show ?thesis using None by (simp add: rows_def new_line_items_rows_def)
    next
      case (Some items)
      show ?thesis
      proof (cases "length items > 0")
        case False
        then have "db (fst run) = (db s4)\<lparr>invoices := invoices (db s4) @ [row]\<rparr>"
          using invoice_committed Some by (simp add: run_def persist_steps_def read_back_db)
        then show ?thesis using Some False by (simp add: rows_def new_line_items_rows_def)
      next
        case True
        consider (items_failed) e where
            "createLineItemsTransaction rt ?s5 (gen_invoice_id rt) items
               = (started Op_createLineItemsTransaction ?s5, Inl e)"
          | (items_committed)
            "createLineItemsTransaction rt ?s5 (gen_invoice_id rt) items
               = (started Op_createLineItemsTransaction
                    (?s5\<lparr>db := (db ?s5)\<lparr>line_items := line_items (db ?s5)
                       @ new_line_items_rows rt (gen_invoice_id rt) items\<rparr>\<rparr>), Inr ())"
          using createLineItemsTransaction_outcome [of rt ?s5 "gen_invoice_id rt" items] by blast
        then show ?thesis
        proof cases
          case items_failed
          then show ?thesis
            using invoice_committed Some True by (simp add: run_def persist_steps_def)
        next
          case items_committed
          then have "db (fst run) = (db s4)\<lparr>invoices := invoices (db s4) @ [row],
                                   line_items := line_items (db s4) @ rows\<rparr>"
            using invoice_committed Some True
            by (simp add: run_def persist_steps_def read_back_db rows_def)
          then show ?thesis by simp
        qed
      qed
    qed
  qed
qed

lemma stub_lineItems:
  "lineItems (fst (extractInvoiceDataStep rt filePath)) =
     Some [\<lparr>description = ''Professional Services'', quantity = lit 1,
            unitPrice = lit 1000, lineTotal = lit 1000, productCode = None, lineNumber = 1\<rparr>]"
  by (simp add: extractInvoiceDataStep_def Let_def)

text \<open>
  The validator reads the overall confidence, the line totals, the subtotal, the tax
  amount and the total amount, and nothing else.
\<close>

lemma validateBusinessRulesStep_reads:
  assumes "overallConfidence confidence' = overallConfidence confidence"
    and "map_option (map lineTotal) (lineItems extractedData')
           = map_option (map lineTotal) (lineItems extractedData)"
    and "subtotal extractedData' = subtotal extractedData"
    and "taxAmount extractedData' = taxAmount extractedData"
    and "totalAmount extractedData' = totalAmount extractedData"
  shows "subtotalDiff extractedData' = subtotalDiff extractedData"
    and "totalDiff extractedData' = totalDiff extractedData"
    and "validateBusinessRulesStep extractedData' confidence'
           = validateBusinessRulesStep extractedData confidence"
proof -
  have "lineItemsTotal extractedData' = lineItemsTotal extractedData"
    using assms(2)
    by (cases "lineItems extractedData'"; cases "lineItems extractedData")
       (simp_all add: lineItemsTotal_def line_totals_added del: or_zero.simps)
  then show "subtotalDiff extractedData' = subtotalDiff extractedData"
    and "totalDiff extractedData' = totalDiff extractedData"
    using assms(3-5) by (simp_all add: subtotalDiff_def totalDiff_def)
  then show "validateBusinessRulesStep extractedData' confidence'
           = validateBusinessRulesStep extractedData confidence"
    using assms(1) by (simp add: validateBusinessRulesStep_def)
qed

lemma stub_as_sample:
  "overallConfidence (snd (extractInvoiceDataStep rt filePath))
     = overallConfidence (sample_confidence (lit (93 / 100)))"
  "map_option (map lineTotal) (lineItems (fst (extractInvoiceDataStep rt filePath)))
     = map_option (map lineTotal) (lineItems
         (sample_extraction [lit 1000] (Some (lit 1000)) (Some (lit 80)) (Some (lit 1080))))"
  "subtotal (fst (extractInvoiceDataStep rt filePath))
     = subtotal (sample_extraction [lit 1000] (Some (lit 1000)) (Some (lit 80)) (Some (lit 1080)))"
  "taxAmount (fst (extractInvoiceDataStep rt filePath))
     = taxAmount (sample_extraction [lit 1000] (Some (lit 1000)) (Some (lit 80)) (Some (lit 1080)))"
  "totalAmount (fst (extractInvoiceDataStep rt filePath))
     = totalAmount (sample_extraction [lit 1000] (Some (lit 1000)) (Some (lit 80)) (Some (lit 1080)))"
  by (simp_all add: extractInvoiceDataStep_def Let_def sample_extraction_def
      sample_confidence_def sample_line_item_def)

lemma sample_stub_decision:
  "subtotalDiff (sample_extraction [lit 1000] (Some (lit 1000)) (Some (lit 80)) (Some (lit 1080)))
     = 0"
  "totalDiff (sample_extraction [lit 1000] (Some (lit 1000)) (Some (lit 80)) (Some (lit 1080)))
     = 0"
  "validateBusinessRulesStep
     (sample_extraction [lit 1000] (Some (lit 1000)) (Some (lit 80)) (Some (lit 1080)))
     (sample_confidence (lit (93 / 100))) = NEEDS_REVIEW"
  by code_simp+


lemma stub_needs_review:
  "validateBusinessRulesStep (fst (extractInvoiceDataStep rt filePath))
     (snd (extractInvoiceDataStep rt filePath)) = NEEDS_REVIEW"
  using validateBusinessRulesStep_reads(3) [OF stub_as_sample [of rt filePath]]
  by (simp add: sample_stub_decision)

text \<open>
  Claim C2, as the code has it. Each transaction is all-or-nothing on its own, and the
  workflow runs \<^verbatim>\<open>createInvoiceTransaction\<close> and
  \<^verbatim>\<open>createLineItemsTransaction\<close> as two transactions. Whatever fails, a run ends
  in one of three ways: nothing is persisted and the run fails; the invoice row is
  persisted without any line item, the run failing in
  \<^verbatim>\<open>createLineItemsTransaction\<close>; or the invoice row and its line item are both
  persisted.
\<close>

theorem invoice_creation_outcomes:
  "(db (fst (invoiceProcessingWorkflow rt s fileData)) = db s
      \<and> isl (snd (invoiceProcessingWorkflow rt s fileData)))
   \<or> (\<exists>row. db (fst (invoiceProcessingWorkflow rt s fileData))
                = (db s)\<lparr>invoices := invoices (db s) @ [row]\<rparr>
            \<and> inv_id row = gen_invoice_id rt
            \<and> isl (snd (invoiceProcessingWorkflow rt s fileData))
            \<and> last (executed (fst (invoiceProcessingWorkflow rt s fileData)))
                = Op_createLineItemsTransaction)
   \<or> (\<exists>row item. db (fst (invoiceProcessingWorkflow rt s fileData))
                = (db s)\<lparr>invoices := invoices (db s) @ [row],
                          line_items := line_items (db s) @ [item]\<rparr>
            \<and> inv_id row = gen_invoice_id rt
            \<and> li_invoice_id item = gen_invoice_id rt)"
proof (cases "validateFileStep fileData")
  case (Inl e)
  then show ?thesis by (simp add: workflow_stages)
next
  case (Inr u)
  let ?s1 = "started Op_validateFileStep s"
  consider (save_failed) e where
      "saveFileStep rt ?s1 (buffer fileData) (originalname fileData)
         = (started Op_saveFileStep ?s1, Inl e)"
    | (saved) filePath where
      "saveFileStep rt ?s1 (buffer fileData) (originalname fileData)
         = (started Op_saveFileStep (?s1\<lparr>files := (filePath, buffer fileData) # files ?s1\<rparr>),
            Inr filePath)"
    using saveFileStep_outcome [of rt ?s1 "buffer fileData" "originalname fileData"] by blast
  then show ?thesis
  proof cases
    case save_failed
    then show ?thesis using Inr by (simp add: workflow_stages)
  next
    case saved
    let ?s4 = "started Op_validateBusinessRulesStep (started Op_extractInvoiceDataStep
                 (started Op_saveFileStep (?s1\<lparr>files := (filePath, buffer fileData) # files ?s1\<rparr>)))"
    let ?ed = "fst (extractInvoiceDataStep rt filePath)"
    let ?cf = "snd (extractInvoiceDataStep rt filePath)"
    have run: "invoiceProcessingWorkflow rt s fileData
                 = persist_steps rt ?s4 filePath ?ed ?cf (validateBusinessRulesStep ?ed ?cf)"
      using Inr saved by (simp add: workflow_stages)
    have db4: "db ?s4 = db s" by simp
    have rows: "new_line_items_rows rt (gen_invoice_id rt)
                  (case lineItems ?ed of None \<Rightarrow> [] | Some items \<Rightarrow> items)
                = [\<lparr>li_id = gen_line_item_id rt 0, li_invoice_id = gen_invoice_id rt,
                    li_description = ''Professional Services'', li_quantity = lit 1,
                    li_unit_price = lit 1000, li_line_total = lit 1000, li_product_code = None,
                    li_line_number = 1\<rparr>]"
      by (simp add: stub_lineItems new_line_items_rows_def)
    define row where "row = new_invoices_row rt
        (workflow_invoiceData filePath ?ed ?cf (validateBusinessRulesStep ?ed ?cf))"
    define item where "item = \<lparr>li_id = gen_line_item_id rt 0, li_invoice_id = gen_invoice_id rt,
                    li_description = ''Professional Services'', li_quantity = lit 1,
                    li_unit_price = lit 1000, li_line_total = lit 1000, li_product_code = None,
                    li_line_number = 1\<rparr>"
    let ?run = "invoiceProcessingWorkflow rt s fileData"
    have "(db (fst ?run) = db s \<and> isl (snd ?run))
       \<or> (db (fst ?run) = (db s)\<lparr>invoices := invoices (db s) @ [row]\<rparr>
           \<and> isl (snd ?run) \<and> last (executed (fst ?run)) = Op_createLineItemsTransaction)
       \<or> db (fst ?run) = (db s)\<lparr>invoices := invoices (db s) @ [row],
                                   line_items := line_items (db s) @ [item]\<rparr>"
      using persist_steps_outcomes [of rt ?s4 filePath ?ed ?cf "validateBusinessRulesStep ?ed ?cf"]
      unfolding run [symmetric] db4 rows row_def [symmetric] item_def [symmetric] .
    then show ?thesis
    proof (elim disjE)
      assume "db (fst ?run) = db s \<and> isl (snd ?run)"
      then show ?thesis by simp
    next
      assume "db (fst ?run) = (db s)\<lparr>invoices := invoices (db s) @ [row]\<rparr>
           \<and> isl (snd ?run) \<and> last (executed (fst ?run)) = Op_createLineItemsTransaction"
      then show ?thesis
        by (intro disjI2 disjI1 exI [of _ row]) (simp add: row_def)
    next
      assume "db (fst ?run) = (db s)\<lparr>invoices := invoices (db s) @ [row],
                                   line_items := line_items (db s) @ [item]\<rparr>"
      then show ?thesis
        by (intro disjI2 exI [of _ row] exI [of _ item]) (simp add: row_def item_def)
    qed
  qed
qed

lemma failing_run:
  "\<exists>s'. invoiceProcessingWorkflow failing_line_items_runtime seed_system (sample_file 4)
          = (s', Inl (Error ''Connection terminated unexpectedly''))
        \<and> map inv_id (invoices (db s'))
            = [''550e8400-e29b-41d4-a716-446655440020'', ''550e8400-e29b-41d4-a716-446655440021'',
               ''550e8400-e29b-41d4-a716-446655440040'']
        \<and> line_items (db s') = line_items seed_database"
  unfolding workflow_stages stub_needs_review
  by (simp add: failing_line_items_runtime_def workflow_defs sample_defs transaction_defs)

text \<open>
  Claim C2 as stated fails: when the database fails in
  \<^verbatim>\<open>createLineItemsTransaction\<close>, the run ends with an error, the new invoice row
  is in the table and no line item has been added.
\<close>

theorem invoice_row_without_line_items_counterexample:
  "isl (snd (invoiceProcessingWorkflow failing_line_items_runtime seed_system (sample_file 4)))
   \<and> map inv_id (invoices (db (fst
        (invoiceProcessingWorkflow failing_line_items_runtime seed_system (sample_file 4)))))
       = [''550e8400-e29b-41d4-a716-446655440020'', ''550e8400-e29b-41d4-a716-446655440021'',
          ''550e8400-e29b-41d4-a716-446655440040'']
   \<and> line_items (db (fst
        (invoiceProcessingWorkflow failing_line_items_runtime seed_system (sample_file 4))))
       = line_items seed_database
   \<and> map inv_id (invoices seed_database)
       = [''550e8400-e29b-41d4-a716-446655440020'', ''550e8400-e29b-41d4-a716-446655440021'']"
  using failing_run by (auto simp: seed_database_def invoice_20_def invoice_21_def)

lemma workflow_succeeds:
  assumes valid: "validateFileStep fileData = Inr ()"
    and no_fault: "\<forall>op. fault rt op = None"
    and fresh_invoice: "gen_invoice_id rt \<notin> set (map inv_id (invoices (db s)))"
    and fresh_item: "gen_line_item_id rt 0 \<notin> set (map li_id (line_items (db s)))"
  shows "\<exists>s' invoice row filePath.
           invoiceProcessingWorkflow rt s fileData = (s', Inr invoice)
           \<and> r_id invoice = gen_invoice_id rt
           \<and> r_status invoice = status_value NEEDS_REVIEW
           \<and> invoices (db s') = invoices (db s) @ [row]
           \<and> inv_id row = gen_invoice_id rt
           \<and> inv_status row = status_value NEEDS_REVIEW
           \<and> files s' = (filePath, buffer fileData) # files s
           \<and> executed s' = executed s @
                [Op_validateFileStep, Op_saveFileStep, Op_extractInvoiceDataStep,
                 Op_validateBusinessRulesStep, Op_createInvoiceTransaction,
                 Op_createLineItemsTransaction, Op_getInvoiceByIdTransaction]"
proof -
  let ?s1 = "started Op_validateFileStep s"
  obtain filePath where saved:
    "saveFileStep rt ?s1 (buffer fileData) (originalname fileData)
       = (started Op_saveFileStep (?s1\<lparr>files := (filePath, buffer fileData) # files ?s1\<rparr>),
          Inr filePath)"
    using saveFileStep_succeeds [of rt ?s1 "buffer fileData" "originalname fileData"] no_fault
    by auto
  let ?s4 = "started Op_validateBusinessRulesStep (started Op_extractInvoiceDataStep
               (started Op_saveFileStep (?s1\<lparr>files := (filePath, buffer fileData) # files ?s1\<rparr>)))"
  let ?ed = "fst (extractInvoiceDataStep rt filePath)"
  let ?cf = "snd (extractInvoiceDataStep rt filePath)"
  let ?data = "workflow_invoiceData filePath ?ed ?cf NEEDS_REVIEW"
  let ?row = "new_invoices_row rt ?data"
  let ?item = "\<lparr>description = ''Professional Services'', quantity = lit 1,
            unitPrice = lit 1000, lineTotal = lit 1000, productCode = None, lineNumber = 1\<rparr>"
  have run: "invoiceProcessingWorkflow rt s fileData
               = persist_steps rt ?s4 filePath ?ed ?cf NEEDS_REVIEW"
    using valid saved by (simp add: workflow_stages stub_needs_review)
  let ?s5 = "started Op_createInvoiceTransaction
               (?s4\<lparr>db := (db ?s4)\<lparr>invoices := invoices (db ?s4) @ [?row]\<rparr>\<rparr>)"
  have created: "createInvoiceTransaction rt ?s4 ?data = (?s5, Inr (gen_invoice_id rt))"
    using no_fault fresh_invoice
    by (intro createInvoiceTransaction_succeeds) (simp_all add: workflow_invoiceData_def)
  let ?s6 = "started Op_createLineItemsTransaction
               (?s5\<lparr>db := (db ?s5)\<lparr>line_items := line_items (db ?s5)
                   @ new_line_items_rows rt (gen_invoice_id rt) [?item]\<rparr>\<rparr>)"
  have items: "createLineItemsTransaction rt ?s5 (gen_invoice_id rt) [?item] = (?s6, Inr ())"
    using no_fault fresh_item by (intro createLineItemsTransaction_succeeds) simp_all
  have read: "getInvoiceByIdTransaction rt ?s6 (gen_invoice_id rt)
                = (started Op_getInvoiceByIdTransaction ?s6,
                   Inr (select_invoice (db ?s6) (gen_invoice_id rt)))"
    using no_fault by (intro getInvoiceByIdTransaction_succeeds) simp
  have found: "find (\<lambda>r. inv_id r = gen_invoice_id rt) (invoices (db ?s6)) = Some ?row"
    using fresh_invoice find_appended [of "gen_invoice_id rt" inv_id "invoices (db s)" ?row]
    by simp
  obtain invoice where selected: "select_invoice (db ?s6) (gen_invoice_id rt) = Some invoice"
    and status: "r_status invoice = status_value NEEDS_REVIEW"
    and id: "r_id invoice = gen_invoice_id rt"
    using found
    by (simp add: select_invoice_def mapDatabaseToInvoiceResponse_def workflow_invoiceData_def)
  have "invoiceProcessingWorkflow rt s fileData
          = (started Op_getInvoiceByIdTransaction ?s6, Inr invoice)"
    unfolding run persist_steps_def
    using created items read selected by (simp add: stub_lineItems)
  moreover have "invoices (db (started Op_getInvoiceByIdTransaction ?s6))
                   = invoices (db s) @ [?row]"
    by simp
  moreover have "inv_status ?row = status_value NEEDS_REVIEW"
    by (simp add: workflow_invoiceData_def)
  moreover have "files (started Op_getInvoiceByIdTransaction ?s6)
                   = (filePath, buffer fileData) # files s"
    by simp
  moreover have "executed (started Op_getInvoiceByIdTransaction ?s6) = executed s @
                [Op_validateFileStep, Op_saveFileStep, Op_extractInvoiceDataStep,
                 Op_validateBusinessRulesStep, Op_createInvoiceTransaction,
                 Op_createLineItemsTransaction, Op_getInvoiceByIdTransaction]"
    by simp
  ultimately show ?thesis
    using status id by (intro exI [of _ "started Op_getInvoiceByIdTransaction ?s6"]
        exI [of _ invoice] exI [of _ ?row] exI [of _ filePath]) simp
qed



section \<open>Properties of the upload\<close>

text \<open>
  Claim C8. The size check is inclusive at 10 MiB and comes before any step. For a file
  of an allowed MIME type: with exactly 10,485,760 bytes it passes the schema of the
  upload handler and \<^verbatim>\<open>validateFileStep\<close>, and, where the middleware lets a file of
  that length through and nothing fails, the upload is answered with 201 and the file is
  stored; with 10,485,761 bytes the upload is answered with 413 \<open>FILE_TOO_LARGE\<close> and
  the state is unchanged: no operation has started, no file is written. Such a file
  would also fail the schema, and \<^verbatim>\<open>validateFileStep\<close> on its own raises the
  \<open>FILE_TOO_LARGE\<close> error for it.
\<close>

theorem file_size_boundary:
  assumes mime: "mimetype file \<in> set [''application/pdf'', ''image/png'', ''image/jpeg'']"
  shows "(file_size file = 10485760 \<longrightarrow>
            validateFileStep file = Inr () \<and> InvoiceSubmissionSchema file Metadata_absent)
       \<and> (file_size file = 10485760 \<and> multer_passes_file_at_limit rt
            \<and> (\<forall>op. fault rt op = None)
            \<and> gen_invoice_id rt \<notin> set (map inv_id (invoices (db s)))
            \<and> gen_line_item_id rt 0 \<notin> set (map li_id (line_items (db s))) \<longrightarrow>
            (\<exists>s' invoice filePath.
               upload rt s (Some file) Metadata_absent = (s', Success 201 (Some invoice))
               \<and> files s' = (filePath, buffer file) # files s))
       \<and> (file_size file = 10485761 \<longrightarrow>
            upload rt s (Some file) metadata
              = (s, Failure 413 FILE_TOO_LARGE ''File size exceeds the 10MB limit.'')
            \<and> \<not> InvoiceSubmissionSchema file metadata
            \<and> validateFileStep file
                = Inl (Error ''FILE_TOO_LARGE: File size 10485761 exceeds limit''))"
proof (intro conjI impI)
  assume "file_size file = 10485760"
  then show "validateFileStep file = Inr ()"
    using mime by (auto simp: validateFileStep_def allowedTypes_def MAX_FILE_SIZE_BYTES_def)
next
  assume "file_size file = 10485760"
  then show "InvoiceSubmissionSchema file Metadata_absent"
    by (simp add: InvoiceSubmissionSchema_def MAX_FILE_SIZE_BYTES_def)
next
  assume a: "file_size file = 10485760 \<and> multer_passes_file_at_limit rt
            \<and> (\<forall>op. fault rt op = None)
            \<and> gen_invoice_id rt \<notin> set (map inv_id (invoices (db s)))
            \<and> gen_line_item_id rt 0 \<notin> set (map li_id (line_items (db s)))"
  then have valid: "validateFileStep file = Inr ()"
    using mime by (auto simp: validateFileStep_def allowedTypes_def MAX_FILE_SIZE_BYTES_def)
  have passed: "multer_single rt (Some file) = Multer_file (Some file)"
    using a mime by (auto simp: multer_single_def MAX_FILE_SIZE_BYTES_def)
  have schema: "InvoiceSubmissionSchema file Metadata_absent"
    using a by (simp add: InvoiceSubmissionSchema_def MAX_FILE_SIZE_BYTES_def)
  obtain s' invoice filePath where
    "invoiceProcessingWorkflow rt s file = (s', Inr invoice)"
    "files s' = (filePath, buffer file) # files s"
    using workflow_succeeds [OF valid, of rt s] a by blast
  then show "\<exists>s' invoice filePath.
               upload rt s (Some file) Metadata_absent = (s', Success 201 (Some invoice))
               \<and> files s' = (filePath, buffer file) # files s"
    using passed schema by (simp add: upload_def)
next
  assume "file_size file = 10485761"
  then have "multer_single rt (Some file) = Multer_LIMIT_FILE_SIZE"
    using mime by (auto simp: multer_single_def MAX_FILE_SIZE_BYTES_def)
  then show "upload rt s (Some file) metadata
              = (s, Failure 413 FILE_TOO_LARGE ''File size exceeds the 10MB limit.'')"
    by (simp add: upload_def)
next
  assume "file_size file = 10485761"
  then show "\<not> InvoiceSubmissionSchema file metadata"
    by (simp add: InvoiceSubmissionSchema_def MAX_FILE_SIZE_BYTES_def)
next
  assume "file_size file = 10485761"
  then show "validateFileStep file
                = Inl (Error ''FILE_TOO_LARGE: File size 10485761 exceeds limit'')"
    using mime
    by (auto simp: validateFileStep_def allowedTypes_def MAX_FILE_SIZE_BYTES_def
        FILE_TOO_LARGE_def decimal.simps digit_def)
qed

theorem file_size_boundary_witness:
  "(\<exists>s' invoice filePath.
      upload sample_runtime seed_system (Some (sample_file 10485760)) Metadata_absent
        = (s', Success 201 (Some invoice))
      \<and> files s' = (filePath, buffer (sample_file 10485760)) # files seed_system)
   \<and> upload sample_runtime seed_system (Some (sample_file 10485761)) Metadata_absent
        = (seed_system, Failure 413 FILE_TOO_LARGE ''File size exceeds the 10MB limit.'')"
proof -
  have mime: "mimetype (sample_file n) \<in> set [''application/pdf'', ''image/png'', ''image/jpeg'']"
    for n by (simp add: sample_file_def)
  have size: "file_size (sample_file n) = n" for n by (simp add: sample_file_def)
  have quiet: "multer_passes_file_at_limit sample_runtime \<and> (\<forall>op. fault sample_runtime op = None)"
    by (simp add: sample_runtime_def)
  show ?thesis
    using file_size_boundary [OF mime, of 10485760 sample_runtime seed_system Metadata_absent]
      file_size_boundary [OF mime, of 10485761 sample_runtime seed_system Metadata_absent]
      size quiet sample_ids_fresh
    by simp
qed

section \<open>Properties of the status transitions\<close>




text \<open>
  Claim C1. The approve handler never reads the role of the acting user: for every
  invoice in \<open>awaiting_approval\<close> and every existing user with a well-formed id,
  whatever the user's role, a request with a body is answered with 200, the status
  becomes \<open>approved\<close> and \<open>approved_by\<close> is that user (when no operation fails).
\<close>

theorem approve_ignores_role:
  assumes found: "find (\<lambda>r. inv_id r = invoiceId) (invoices (db s)) = Some row"
    and status: "inv_status row = status_value AWAITING_APPROVAL"
    and consistent: "list_all (foreign_keys_ok (db s)) (invoices (db s))"
    and actor: "find (\<lambda>u. usr_id u = userId) (users (db s)) = Some user"
    and uuid: "uuid_test userId"
    and no_fault: "\<forall>op. fault rt op = None"
  shows "\<exists>s' invoice.
           approve rt s invoiceId (Some request) (Some userId) = (s', Success 200 (Some invoice))
           \<and> r_status invoice = status_value APPROVED
           \<and> r_approvedBy invoice = Some userId
           \<and> find (\<lambda>r. inv_id r = invoiceId) (invoices (db s'))
               = Some (row\<lparr>inv_status := status_value APPROVED, inv_approved_by := Some userId\<rparr>)"
proof -
  let ?s1 = "started Op_getInvoiceByIdTransaction s"
  let ?f = "\<lambda>r. r\<lparr>inv_status := status_value APPROVED, inv_approved_by := Some userId\<rparr>"
  let ?d2 = "(db s)\<lparr>invoices :=
               map (\<lambda>r. if inv_id r = invoiceId then ?f r else r) (invoices (db s))\<rparr>"
  let ?s2 = "started Op_updateInvoiceStatusTransaction (?s1\<lparr>db := ?d2\<rparr>)"
  have known: "userId \<in> set (map usr_id (users (db s)))"
    using find_SomeD [OF actor] by auto
  obtain existing where existing: "select_invoice (db s) invoiceId = Some existing"
    and awaiting: "r_status existing = status_value AWAITING_APPROVAL"
    using select_invoice_found [OF found] status by auto
  have read1: "getInvoiceByIdTransaction rt s invoiceId = (?s1, Inr (Some existing))"
    using no_fault existing by (simp add: getInvoiceByIdTransaction_succeeds)
  have "updateInvoiceStatusTransaction rt ?s1 invoiceId APPROVED None (Some userId)
          = (started Op_updateInvoiceStatusTransaction
               (?s1\<lparr>db := (db ?s1)\<lparr>invoices :=
                  map (\<lambda>r. if inv_id r = invoiceId
                    then r\<lparr>inv_status := status_value APPROVED,
                           inv_assigned_to := (case None of None \<Rightarrow> inv_assigned_to r | Some u \<Rightarrow> Some u),
                           inv_approved_by := (case Some userId of None \<Rightarrow> inv_approved_by r | Some u \<Rightarrow> Some u)\<rparr>
                    else r) (invoices (db ?s1))\<rparr>\<rparr>), Inr ())"
    using no_fault consistent known by (intro updateInvoiceStatusTransaction_succeeds) simp_all
  then have updated:
    "updateInvoiceStatusTransaction rt ?s1 invoiceId APPROVED None (Some userId) = (?s2, Inr ())"
    by simp
  have found2: "find (\<lambda>r. inv_id r = invoiceId) (invoices (db ?s2)) = Some (?f row)"
    using found find_updated [of ?f invoiceId "invoices (db s)"] by simp
  have joined: "joined_user_id (db ?s2) (Some userId) = Some userId"
    using actor find_SomeD [OF actor] by (simp add: joined_user_id_def)
  obtain invoice where selected: "select_invoice (db ?s2) invoiceId = Some invoice"
    and approved: "r_status invoice = status_value APPROVED"
    and by_actor: "r_approvedBy invoice = Some userId"
    using found2 joined by (simp add: select_invoice_def mapDatabaseToInvoiceResponse_def)
  have read2: "getInvoiceByIdTransaction rt ?s2 invoiceId
                 = (started Op_getInvoiceByIdTransaction ?s2, Inr (Some invoice))"
    using no_fault selected by (simp add: getInvoiceByIdTransaction_succeeds)
  have "approve rt s invoiceId (Some request) (Some userId)
          = (started Op_getInvoiceByIdTransaction ?s2, Success 200 (Some invoice))"
    using uuid uuid_test_nonempty [OF uuid] read1 awaiting updated read2
    by (simp add: approve_def)
  then show ?thesis
    using approved by_actor found2
    by (intro exI [of _ "started Op_getInvoiceByIdTransaction ?s2"] exI [of _ invoice]) simp
qed

theorem approve_ignores_role_witness:
  "map usr_role (filter (\<lambda>u. usr_id u = clerk_id) (users (db seed_system))) = [FINANCE_CLERK]
   \<and> inv_status invoice_21 = status_value AWAITING_APPROVAL
   \<and> (\<exists>s' invoice.
         approve sample_runtime seed_system ''550e8400-e29b-41d4-a716-446655440021''
             (Some \<lparr>apr_comments = None\<rparr>) (Some clerk_id)
           = (s', Success 200 (Some invoice))
         \<and> r_status invoice = status_value APPROVED
         \<and> r_approvedBy invoice = Some clerk_id
         \<and> find (\<lambda>r. inv_id r = ''550e8400-e29b-41d4-a716-446655440021'') (invoices (db s'))
               = Some (invoice_21\<lparr>inv_status := status_value APPROVED,
                                  inv_approved_by := Some clerk_id\<rparr>))"
proof -
  have status: "inv_status invoice_21 = status_value AWAITING_APPROVAL"
    by (simp add: invoice_21_def)
  have actor: "find (\<lambda>u. usr_id u = clerk_id) (users (db seed_system))
                 = Some \<lparr>usr_id = clerk_id, usr_email = ''clerk@company.com'',
                         usr_name = ''Finance Clerk'', usr_role = FINANCE_CLERK\<rparr>"
    by (simp add: seed_system_def seed_database_def)
  have uuid: "uuid_test clerk_id"
    by (simp add: clerk_id_def uuid_test_clerk)
  have role: "map usr_role (filter (\<lambda>u. usr_id u = clerk_id) (users (db seed_system)))
                = [FINANCE_CLERK]"
    by (simp add: seed_system_def seed_database_def clerk_id_def manager_id_def)
  show ?thesis
    using approve_ignores_role [OF seed_invoice_21 status seed_consistent actor uuid
        sample_runtime_quiet, of "\<lparr>apr_comments = None\<rparr>"] role status
    by simp
qed

text \<open>
  Claim C3. The reject handler does not look at the current status: for every existing
  invoice of a consistent database, whatever its status, a request whose body gives a
  reason is answered with 200 and the row's status becomes \<open>rejected\<close> (when no
  operation fails).
\<close>

theorem reject_ignores_status:
  assumes found: "find (\<lambda>r. inv_id r = invoiceId) (invoices (db s)) = Some row"
    and consistent: "list_all (foreign_keys_ok (db s)) (invoices (db s))"
    and reason: "truthy reason"
    and no_fault: "\<forall>op. fault rt op = None"
  shows "\<exists>s' invoice.
           reject rt s invoiceId (Some \<lparr>rej_reason = reason, rej_comments = comments\<rparr>)
             = (s', Success 200 (Some invoice))
           \<and> r_status invoice = status_value REJECTED
           \<and> find (\<lambda>r. inv_id r = invoiceId) (invoices (db s'))
               = Some (row\<lparr>inv_status := status_value REJECTED\<rparr>)"
proof -
  let ?s1 = "started Op_getInvoiceByIdTransaction s"
  let ?f = "\<lambda>r. r\<lparr>inv_status := status_value REJECTED\<rparr>"
  let ?d2 = "(db s)\<lparr>invoices :=
               map (\<lambda>r. if inv_id r = invoiceId then ?f r else r) (invoices (db s))\<rparr>"
  let ?s2 = "started Op_updateInvoiceStatusTransaction (?s1\<lparr>db := ?d2\<rparr>)"
  obtain existing where existing: "select_invoice (db s) invoiceId = Some existing"
    using select_invoice_found [OF found] by blast
  have read1: "getInvoiceByIdTransaction rt s invoiceId = (?s1, Inr (Some existing))"
    using no_fault existing by (simp add: getInvoiceByIdTransaction_succeeds)
  have "updateInvoiceStatusTransaction rt ?s1 invoiceId REJECTED None None
          = (started Op_updateInvoiceStatusTransaction
               (?s1\<lparr>db := (db ?s1)\<lparr>invoices :=
                  map (\<lambda>r. if inv_id r = invoiceId
                    then r\<lparr>inv_status := status_value REJECTED,
                           inv_assigned_to := (case None of None \<Rightarrow> inv_assigned_to r | Some u \<Rightarrow> Some u),
                           inv_approved_by := (case None of None \<Rightarrow> inv_approved_by r | Some u \<Rightarrow> Some u)\<rparr>
                    else r) (invoices (db ?s1))\<rparr>\<rparr>), Inr ())"
    using no_fault consistent by (intro updateInvoiceStatusTransaction_succeeds) simp_all
  then have updated: "updateInvoiceStatusTransaction rt ?s1 invoiceId REJECTED None None = (?s2, Inr ())"
    by simp
  have found2: "find (\<lambda>r. inv_id r = invoiceId) (invoices (db ?s2)) = Some (?f row)"
    using found find_updated [of ?f invoiceId "invoices (db s)"] by simp
  obtain invoice where selected: "select_invoice (db ?s2) invoiceId = Some invoice"
    and status: "r_status invoice = status_value REJECTED"
    using select_invoice_found [OF found2] by auto
  have read2: "getInvoiceByIdTransaction rt ?s2 invoiceId
                 = (started Op_getInvoiceByIdTransaction ?s2, Inr (Some invoice))"
    using no_fault selected by (simp add: getInvoiceByIdTransaction_succeeds)
  have "reject rt s invoiceId (Some \<lparr>rej_reason = reason, rej_comments = comments\<rparr>)
          = (started Op_getInvoiceByIdTransaction ?s2, Success 200 (Some invoice))"
    using reason read1 updated read2 by (simp add: reject_def)
  then show ?thesis
    using status found2
    by (intro exI [of _ "started Op_getInvoiceByIdTransaction ?s2"] exI [of _ invoice]) simp
qed

theorem reject_ignores_status_witness:
  "inv_status invoice_20 = status_value NEEDS_REVIEW
   \<and> (\<exists>s' invoice.
         reject sample_runtime seed_system ''550e8400-e29b-41d4-a716-446655440020''
           (Some \<lparr>rej_reason = Some ''Duplicate invoice'', rej_comments = None\<rparr>)
           = (s', Success 200 (Some invoice))
         \<and> r_status invoice = status_value REJECTED
         \<and> find (\<lambda>r. inv_id r = ''550e8400-e29b-41d4-a716-446655440020'') (invoices (db s'))
               = Some (invoice_20\<lparr>inv_status := status_value REJECTED\<rparr>))"
proof -
  have status: "inv_status invoice_20 = status_value NEEDS_REVIEW"
    by (simp add: invoice_20_def)
  have reason: "truthy (Some ''Duplicate invoice'')"
    by simp
  show ?thesis
    using reject_ignores_status [OF seed_invoice_20 seed_consistent reason sample_runtime_quiet,
        of None] status
    by simp
qed

lemma deleted_not_a_status: "''deleted'' \<notin> set invoices_status_enum"
  by (simp add: invoices_status_enum_def)

text \<open>
  Claim C4. The value \<open>deleted\<close> that \<^verbatim>\<open>deleteInvoiceTransaction\<close> writes is not
  one of the five values of the status enumeration. For every existing invoice the update
  violates the check constraint on \<^verbatim>\<open>invoices.status\<close>: the transaction raises,
  the row is not removed and not changed, and the DELETE request is answered with an
  error instead of 204.
\<close>

theorem delete_violates_status_check:
  assumes "invoiceId \<in> set (map inv_id (invoices (db s)))"
  shows "''deleted'' \<notin> set invoices_status_enum
       \<and> (\<exists>e. deleteInvoiceTransaction rt s invoiceId
                = (started Op_deleteInvoiceTransaction s, Inl e))
       \<and> db (fst (delete_invoice rt s invoiceId)) = db s
       \<and> (\<exists>n code message. snd (delete_invoice rt s invoiceId) = Failure n code message)"
proof -
  have "filter (\<lambda>r. inv_id r = invoiceId) (invoices (db s)) \<noteq> []"
    using assms by (auto simp: filter_empty_conv)
  then have violated: "update_invoices (db s) invoiceId (\<lambda>r. r\<lparr>inv_status := ''deleted''\<rparr>)
                = Inl check_violation"
    by (cases "filter (\<lambda>r. inv_id r = invoiceId) (invoices (db s))")
       (simp_all add: update_invoices_def status_check_ok_def invoices_status_enum_def)
  have txn: "\<exists>e. deleteInvoiceTransaction rt s' invoiceId
                = (started Op_deleteInvoiceTransaction s', Inl e)" if "db s' = db s" for s'
    using violated that
    by (simp add: deleteInvoiceTransaction_def DBOS_transaction_def split: option.splits)
  have "db (fst (delete_invoice rt s invoiceId)) = db s
       \<and> (\<exists>n code message. snd (delete_invoice rt s invoiceId) = Failure n code message)"
    using getInvoiceByIdTransaction_outcome [of rt s invoiceId]
      txn [of "started Op_getInvoiceByIdTransaction s"] handleError_is_failure
    by (auto simp: delete_invoice_def split: option.splits)
  then show ?thesis using txn [of s] deleted_not_a_status by simp
qed

theorem delete_violates_status_check_witness:
  "''550e8400-e29b-41d4-a716-446655440020'' \<in> set (map inv_id (invoices (db seed_system)))
   \<and> db (fst (delete_invoice sample_runtime seed_system
                 ''550e8400-e29b-41d4-a716-446655440020'')) = db seed_system
   \<and> snd (delete_invoice sample_runtime seed_system ''550e8400-e29b-41d4-a716-446655440020'')
       = Failure 500 ''INTERNAL_ERROR'' ''An internal server error occurred.''"
proof -
  have existing: "''550e8400-e29b-41d4-a716-446655440020''
                    \<in> set (map inv_id (invoices (db seed_system)))"
    by (simp add: seed_system_def seed_database_def invoice_20_def)
  have "snd (delete_invoice sample_runtime seed_system ''550e8400-e29b-41d4-a716-446655440020'')
       = Failure 500 ''INTERNAL_ERROR'' ''An internal server error occurred.''"
    by (simp add: delete_invoice_def deleteInvoiceTransaction_def update_invoices_def
        check_violation_def handleError_def INVALID_FILE_FORMAT_def FILE_TOO_LARGE_def
        sample_defs transaction_defs)
  then show ?thesis
    using delete_violates_status_check [OF existing, of sample_runtime] existing by simp
qed

end
